theory Spec2Isabelle
  imports Complex_Main "HOL-Library.Word" "HOL-Library.AList"
begin

section \<open>Enhancement simulator: the engine of App.jsx\<close>

text \<open>
  The engine of the single-file application: the seeded generator \<open>createLCG\<close>, the
  two simulators \<open>simulateStarsOnly\<close> and \<open>simulateFullRun\<close>, the two worst-case
  calculators, \<open>percentile\<close> and the histogram of \<open>runSimulation\<close>.

  Counters are \<open>nat\<close>, the generator's state is a 32-bit word, probabilities, draws
  and gold are \<open>real\<close>. The counters and the generator's arithmetic stay below
  \<open>2^53\<close>, where doubles are exact. Gold is added and multiplied as doubles are, with
  the rounding written out; the quotient of a draw, the means and the interpolation of
  \<open>percentile\<close> are taken without rounding.
\<close>

subsection \<open>Double arithmetic\<close>

text \<open>
  A JavaScript number is an IEEE 754 double: a significand of 53 bits, with the spacing
  of the numbers below \<open>2^-1022\<close> fixed at \<open>2^-1074\<close>. \<open>a + b\<close> and \<open>a * b\<close>
  are the exact sum and product rounded to the nearest double, a tie going to the even
  significand. Results beyond the largest double (about \<open>1.8e308\<close>), which JavaScript
  turns into \<open>Infinity\<close>, are outside the model.

  \<open>bitLength n\<close> is the number of binary digits of \<open>n\<close>, \<open>exponent x\<close> the
  integer \<open>e\<close> with \<open>2^e \<le> |x| < 2^(e+1)\<close> for \<open>x \<noteq> 0\<close>, \<open>roundEven\<close> the
  nearest integer with ties to even, and \<open>toDouble x\<close> the double nearest to \<open>x\<close>.
\<close>

fun bitLength :: "nat \<Rightarrow> nat" where
  "bitLength n = (if n = 0 then 0 else Suc (bitLength (n div 2)))"

declare bitLength.simps [simp del]

definition exponent :: "real \<Rightarrow> int" where
  "exponent x =
     (if 1 \<le> \<bar>x\<bar> then int (bitLength (nat \<lfloor>\<bar>x\<bar>\<rfloor>)) - 1
      else - int (bitLength (nat (\<lceil>1 / \<bar>x\<bar>\<rceil> - 1))))"

definition roundEven :: "real \<Rightarrow> int" where
  "roundEven y =
     (let f = \<lfloor>y\<rfloor>; d = y - of_int f
      in if d < 1 / 2 then f else if 1 / 2 < d then f + 1 else if even f then f else f + 1)"

definition toDouble :: "real \<Rightarrow> real" where
  "toDouble x =
     (if x = 0 then 0
      else (let u = max (exponent x) (- 1022) - 52
            in of_int (roundEven (x / 2 powi u)) * 2 powi u))"

definition jsAdd :: "real \<Rightarrow> real \<Rightarrow> real" where
  "jsAdd a b = toDouble (a + b)"

definition jsMul :: "real \<Rightarrow> real \<Rightarrow> real" where
  "jsMul a b = toDouble (a * b)"

subsection \<open>Seeded generator\<close>

text \<open>
  \<open>createLCG(seed)\<close> starts from \<open>seed >>> 0 || 1\<close>: the seed as an unsigned 32-bit
  integer, or 1 when that is 0. The closure's hidden variable \<open>state\<close> is passed
  explicitly: \<open>rand\<close> takes the state and returns the draw with the new state.
  The product \<open>1664525 * state\<close> is below \<open>2^53\<close>, so \<open>>>> 0\<close> is the exact residue
  modulo \<open>2^32\<close>, which is the arithmetic of \<open>32 word\<close>. The quotient
  \<open>state / 0xffffffff\<close> is taken exactly; where it is 0 or 1 the double is the same.
\<close>

definition createLCG :: "int \<Rightarrow> 32 word" where
  "createLCG seed = (if (word_of_int seed :: 32 word) = 0 then 1 else word_of_int seed)"

definition rand :: "32 word \<Rightarrow> real \<times> 32 word" where
  "rand state = (let state' = 1664525 * state + 1013904223
                 in (real (unat state') / 4294967295, state'))"

text \<open>The state after \<open>n\<close> draws, and the draw made then (draw 0 is the first).\<close>

fun stateAfter :: "32 word \<Rightarrow> nat \<Rightarrow> 32 word" where
  "stateAfter state 0 = state"
| "stateAfter state (Suc n) = stateAfter (snd (rand state)) n"

definition nthDraw :: "int \<Rightarrow> nat \<Rightarrow> real" where
  "nthDraw seed n = fst (rand (stateAfter (createLCG seed) n))"

subsection \<open>Configuration and outcomes\<close>

text \<open>
  The \<open>params\<close> object. The pity thresholds are the configuration's non-negative
  integers; \<open>numStars\<close> is the number of cells of every per-star array.
\<close>

record params =
  goldPerAttempt :: real
  starProbs :: "real list"
  finalProb :: real
  starPityThreshold :: nat
  finalPityThreshold :: nat
  starPityResetsOnAnyFail :: bool
  numStars :: nat

text \<open>The object \<open>{ attempts, gold, starAttempts }\<close> both simulators return.\<close>

record run =
  attempts :: nat
  gold :: real
  starAttempts :: "nat list"

text \<open>
  A worst-case field is a number or \<open>Infinity\<close>; the worst-case calculators return
  \<open>{ attempts, gold }\<close>, the gold being the product \<open>attempts * goldPerAttempt\<close> of
  doubles.
\<close>

datatype 'a jsnum = Fin 'a | Infinity

record worst =
  wcAttempts :: "nat jsnum"
  wcGold :: "real jsnum"

subsection \<open>Simulators\<close>

text \<open>
  \<open>handleFailReset\<close>: with \<open>starPityResetsOnAnyFail\<close> the pity array is replaced by a
  fresh \<open>Array(numStars).fill(0)\<close>.
\<close>

definition handleFailReset :: "params \<Rightarrow> nat list \<Rightarrow> nat list" where
  "handleFailReset p starPityFails =
     (if starPityResetsOnAnyFail p then replicate (numStars p) 0 else starPityFails)"

text \<open>
  \<open>guaranteed || rand() < starProbs[i]\<close>: the generator is called only when the attempt is
  not guaranteed. A read of \<open>starProbs\<close> past its end is \<open>undefined\<close>, and
  \<open>rand() < undefined\<close> is false, after the draw has been made. The result is the
  success flag with the generator's state.
\<close>

definition starSuccess ::
  "params \<Rightarrow> ('s \<Rightarrow> real \<times> 's) \<Rightarrow> nat list \<Rightarrow> nat \<Rightarrow> 's \<Rightarrow> bool \<times> 's" where
  "starSuccess p rnd starPityFails i s =
     (let guaranteed = starPityFails ! i \<ge> starPityThreshold p
      in if guaranteed then (True, s)
         else (let (x, s') = rnd s
               in (i < length (starProbs p) \<and> x < starProbs p ! i, s')))"

text \<open>
  The body of the star loop, the same text in both simulators: one attempt on star \<open>i\<close>.
  It returns the counters, the pity array, the next star to attempt and the generator's
  state. \<open>gold += goldPerAttempt\<close> is an addition of doubles. After a failure \<open>simulateStarsOnly\<close> sets \<open>currentStars = 0\<close>, and
  \<open>simulateFullRun\<close> sets \<open>i = -1\<close>, which the loop's \<open>i++\<close> turns into 0; its
  \<open>currentStars\<close> is written and never read.
\<close>

definition attemptStar ::
  "params \<Rightarrow> ('s \<Rightarrow> real \<times> 's) \<Rightarrow> run \<Rightarrow> nat list \<Rightarrow> nat \<Rightarrow> 's
     \<Rightarrow> run \<times> nat list \<times> nat \<times> 's" where
  "attemptStar p rnd r starPityFails i s =
     (let r' = r\<lparr>attempts := attempts r + 1,
                 gold := jsAdd (gold r) (goldPerAttempt p),
                 starAttempts := (starAttempts r)[i := starAttempts r ! i + 1]\<rparr>;
          (success, s') = starSuccess p rnd starPityFails i s
      in if success then (r', starPityFails[i := 0], i + 1, s')
         else (r', handleFailReset p (starPityFails[i := starPityFails ! i + 1]), 0, s'))"

text \<open>
  The star loop, \<open>while (currentStars < numStars)\<close>. It may run forever, so it is a
  partial function: \<open>None\<close> is a run that never returns. Both arrays are created with
  \<open>numStars\<close> cells and \<open>i < numStars\<close>, so no cell outside them is reached; the model
  gives no result for arrays that are too short.
\<close>

partial_function (option) starLoop ::
  "params \<Rightarrow> ('s \<Rightarrow> real \<times> 's) \<Rightarrow> run \<Rightarrow> nat list \<Rightarrow> nat \<Rightarrow> 's
     \<Rightarrow> (run \<times> nat list \<times> 's) option" where
  "starLoop p rnd r starPityFails i s =
     (if i < numStars p then
        (if i < length starPityFails \<and> i < length (starAttempts r) then
           (case attemptStar p rnd r starPityFails i s of
              (r', starPityFails', i', s') \<Rightarrow> starLoop p rnd r' starPityFails' i' s')
         else None)
      else Some (r, starPityFails, s))"

definition simulateStarsOnly ::
  "params \<Rightarrow> ('s \<Rightarrow> real \<times> 's) \<Rightarrow> 's \<Rightarrow> (run \<times> 's) option" where
  "simulateStarsOnly p rnd s =
     (case starLoop p rnd \<lparr>attempts = 0, gold = 0, starAttempts = replicate (numStars p) 0\<rparr>
             (replicate (numStars p) 0) 0 s of
        None \<Rightarrow> None
      | Some (r, starPityFails, s') \<Rightarrow> Some (r, s'))"

text \<open>
  \<open>finalGuaranteed || rand() < finalProb\<close>, again drawing only when not guaranteed.
\<close>

definition finalSuccess ::
  "params \<Rightarrow> ('s \<Rightarrow> real \<times> 's) \<Rightarrow> nat \<Rightarrow> 's \<Rightarrow> bool \<times> 's" where
  "finalSuccess p rnd finalPityFails s =
     (let finalGuaranteed = finalPityFails \<ge> finalPityThreshold p
      in if finalGuaranteed then (True, s)
         else (let (x, s') = rnd s in (x < finalProb p, s')))"

text \<open>
  The outer \<open>for (;;)\<close> of \<open>simulateFullRun\<close>: build all stars, then one final attempt.
  The loop returns the counters together with \<open>finalPityFails\<close> as it stands at the
  \<open>return\<close>, and the generator's state.
\<close>

partial_function (option) fullLoop ::
  "params \<Rightarrow> ('s \<Rightarrow> real \<times> 's) \<Rightarrow> run \<Rightarrow> nat list \<Rightarrow> nat \<Rightarrow> 's
     \<Rightarrow> (run \<times> nat \<times> 's) option" where
  "fullLoop p rnd r starPityFails finalPityFails s =
     (case starLoop p rnd r starPityFails 0 s of
        None \<Rightarrow> None
      | Some (r1, starPityFails1, s1) \<Rightarrow>
          (let r2 = r1\<lparr>attempts := attempts r1 + 1,
                       gold := jsAdd (gold r1) (goldPerAttempt p)\<rparr>
           in case finalSuccess p rnd finalPityFails s1 of
                (success, s2) \<Rightarrow>
                  if success then Some (r2, finalPityFails, s2)
                  else fullLoop p rnd r2 (handleFailReset p starPityFails1)
                         (finalPityFails + 1) s2))"

definition simulateFullRun ::
  "params \<Rightarrow> ('s \<Rightarrow> real \<times> 's) \<Rightarrow> 's \<Rightarrow> (run \<times> 's) option" where
  "simulateFullRun p rnd s =
     (case fullLoop p rnd \<lparr>attempts = 0, gold = 0, starAttempts = replicate (numStars p) 0\<rparr>
             (replicate (numStars p) 0) 0 s of
        None \<Rightarrow> None
      | Some (r, finalPityFails, s') \<Rightarrow> Some (r, s'))"

subsection \<open>Worst-case calculators\<close>

text \<open>
  The adversarial star loop, the same text in both calculators: an attempt succeeds only
  when pity guarantees it. It returns the pity array and the attempts counted. The array
  has \<open>numStars\<close> cells; on a shorter one the read past the end would be
  \<open>undefined\<close>, never guaranteed, and the loop would not return.
\<close>

partial_function (option) worstStarLoop ::
  "params \<Rightarrow> nat list \<Rightarrow> nat \<Rightarrow> nat \<Rightarrow> (nat list \<times> nat) option" where
  "worstStarLoop p starPityFails currentStars n =
     (if currentStars < numStars p then
        (if currentStars < length starPityFails then
           (let i = currentStars;
                guaranteed = starPityFails ! i \<ge> starPityThreshold p
            in if guaranteed then worstStarLoop p (starPityFails[i := 0]) (currentStars + 1) (n + 1)
               else worstStarLoop p (starPityFails[i := starPityFails ! i + 1]) 0 (n + 1))
         else None)
      else Some (starPityFails, n))"

definition worstCaseStarsOnly :: "params \<Rightarrow> worst option" where
  "worstCaseStarsOnly p =
     (if starPityResetsOnAnyFail p then Some \<lparr>wcAttempts = Infinity, wcGold = Infinity\<rparr>
      else case worstStarLoop p (replicate (numStars p) 0) 0 0 of
             None \<Rightarrow> None
           | Some (starPityFails, n) \<Rightarrow>
               Some \<lparr>wcAttempts = Fin n,
                     wcGold = Fin (jsMul (real n) (goldPerAttempt p))\<rparr>)"

partial_function (option) worstFullLoop ::
  "params \<Rightarrow> nat list \<Rightarrow> nat \<Rightarrow> nat \<Rightarrow> nat option" where
  "worstFullLoop p starPityFails finalPityFails n =
     (case worstStarLoop p starPityFails 0 n of
        None \<Rightarrow> None
      | Some (starPityFails1, n1) \<Rightarrow>
          (let finalGuaranteed = finalPityFails \<ge> finalPityThreshold p
           in if finalGuaranteed then Some (n1 + 1)
              else worstFullLoop p starPityFails1 (finalPityFails + 1) (n1 + 1)))"

definition worstCaseFull :: "params \<Rightarrow> worst option" where
  "worstCaseFull p =
     (if starPityResetsOnAnyFail p then Some \<lparr>wcAttempts = Infinity, wcGold = Infinity\<rparr>
      else case worstFullLoop p (replicate (numStars p) 0) 0 0 of
             None \<Rightarrow> None
           | Some n \<Rightarrow>
               Some \<lparr>wcAttempts = Fin n,
                     wcGold = Fin (jsMul (real n) (goldPerAttempt p))\<rparr>)"

text \<open>
  The attempts of the adversarial build of the first \<open>k\<close> stars from fresh pity counters,
  with star threshold \<open>T\<close>: the closed form the loop is proved to compute.
\<close>

fun worstBuild :: "nat \<Rightarrow> nat \<Rightarrow> nat" where
  "worstBuild T 0 = 0"
| "worstBuild T (Suc k) = (T + 1) * (worstBuild T k + 1)"

text \<open>
  The gold after \<open>n\<close> attempts: \<open>gold += goldPerAttempt\<close> done \<open>n\<close> times from 0.
\<close>

fun goldSum :: "real \<Rightarrow> nat \<Rightarrow> real" where
  "goldSum g 0 = 0"
| "goldSum g (Suc n) = jsAdd (goldSum g n) g"

subsection \<open>Statistics\<close>

text \<open>
  \<open>percentile(sortedArr, p)\<close>. \<open>sortedArr[base + 1] !== undefined\<close> holds exactly when
  \<open>base + 1\<close> is an index of the array. A read outside the array is \<open>undefined\<close>, and
  arithmetic on it is \<open>NaN\<close>: \<open>None\<close> stands for a result that is not a number.
\<close>

definition percentile :: "real list \<Rightarrow> real \<Rightarrow> real option" where
  "percentile sortedArr p =
     (if length sortedArr = 0 then Some 0
      else
        (let pos = (real (length sortedArr) - 1) * p;
             base = \<lfloor>pos\<rfloor>;
             rest = pos - of_int base
         in if 0 \<le> base + 1 \<and> base + 1 < int (length sortedArr) then
              (if 0 \<le> base then
                 Some (sortedArr ! nat base
                       + rest * (sortedArr ! nat (base + 1) - sortedArr ! nat base))
               else None)
            else if 0 \<le> base \<and> base < int (length sortedArr) then Some (sortedArr ! nat base)
            else None))"

text \<open>
  \<open>arr.reduce((a, b) => a + b, 0) / arr.length\<close>; on an empty array this is \<open>0 / 0\<close>,
  which is \<open>NaN\<close>.
\<close>

definition mean :: "real list \<Rightarrow> real option" where
  "mean arr = (if length arr = 0 then None else Some (sum_list arr / real (length arr)))"

text \<open>
  \<open>makeHistogram(arr, binSize)\<close>. The \<open>Map\<close> is an association list in insertion
  order: \<open>map.get\<close> is \<open>map_of\<close>, and \<open>map.set\<close> is \<open>AList.update\<close>, which
  replaces the value of a key already present and appends a new key at the end. The
  entries are then sorted by key; an entry \<open>{ attempts: k, runs: v }\<close> is the pair
  \<open>(k, v)\<close>. The division is JavaScript's only for \<open>binSize \<noteq> 0\<close>.
\<close>

definition binOf :: "real \<Rightarrow> real \<Rightarrow> real" where
  "binOf binSize v = of_int \<lfloor>v / binSize\<rfloor> * binSize"

definition countInto :: "real \<Rightarrow> (real \<times> nat) list \<Rightarrow> real \<Rightarrow> (real \<times> nat) list" where
  "countInto binSize m v =
     (let bin = binOf binSize v
      in AList.update bin ((case map_of m bin of None \<Rightarrow> 0 | Some c \<Rightarrow> c) + 1) m)"

definition makeHistogram :: "real list \<Rightarrow> real \<Rightarrow> (real \<times> nat) list" where
  "makeHistogram arr binSize = sort_key fst (foldl (countInto binSize) [] arr)"

subsection \<open>The batch run\<close>

text \<open>The arrays filled by the trial loop of \<open>runSimulation\<close>.\<close>

record batch =
  starsAttempts :: "nat list"
  starsGolds :: "real list"
  fullAttempts :: "nat list"
  fullGolds :: "real list"
  starsAttemptsPerStar :: "nat list list"
  fullAttemptsPerStar :: "nat list list"

text \<open>
  \<open>for (let t = 0; t < trials; t++)\<close>, by the number of trials left: a stars-only run,
  then a full run on the same generator. A run that never returns leaves the whole
  loop without a result.
\<close>

fun trialLoop ::
  "params \<Rightarrow> ('s \<Rightarrow> real \<times> 's) \<Rightarrow> nat \<Rightarrow> batch \<Rightarrow> 's \<Rightarrow> (batch \<times> 's) option" where
  "trialLoop p rnd 0 b s = Some (b, s)"
| "trialLoop p rnd (Suc k) b s =
     (case simulateStarsOnly p rnd s of
        None \<Rightarrow> None
      | Some (sr, s1) \<Rightarrow>
          (case simulateFullRun p rnd s1 of
             None \<Rightarrow> None
           | Some (fr, s2) \<Rightarrow>
               trialLoop p rnd k
                 \<lparr>starsAttempts = starsAttempts b @ [attempts sr],
                  starsGolds = starsGolds b @ [gold sr],
                  fullAttempts = fullAttempts b @ [attempts fr],
                  fullGolds = fullGolds b @ [gold fr],
                  starsAttemptsPerStar =
                    map2 (\<lambda>col val. col @ [val]) (starsAttemptsPerStar b) (starAttempts sr),
                  fullAttemptsPerStar =
                    map2 (\<lambda>col val. col @ [val]) (fullAttemptsPerStar b) (starAttempts fr)\<rparr>
                 s2))"

record summary =
  meanAttempts :: "real option"
  medianAttempts :: "real option"
  p90Attempts :: "real option"
  p99Attempts :: "real option"
  meanGold :: "real option"
  medianGold :: "real option"
  p90Gold :: "real option"
  p99Gold :: "real option"

text \<open>\<open>starsSummary\<close> and \<open>fullSummary\<close>: the arrays are copied and sorted ascending.\<close>

definition summarize :: "nat list \<Rightarrow> real list \<Rightarrow> summary" where
  "summarize attemptsArr goldsArr =
     (let sA = map real (sort attemptsArr); sG = sort goldsArr
      in \<lparr>meanAttempts = mean (map real attemptsArr),
          medianAttempts = percentile sA 0.5,
          p90Attempts = percentile sA 0.9,
          p99Attempts = percentile sA 0.99,
          meanGold = mean goldsArr,
          medianGold = percentile sG 0.5,
          p90Gold = percentile sG 0.9,
          p99Gold = percentile sG 0.99\<rparr>)"

record results =
  starsSummary :: summary
  fullSummary :: summary
  starsHistogram :: "(real \<times> nat) list"
  fullHistogram :: "(real \<times> nat) list"
  wcStars :: worst
  wcFull :: worst

text \<open>
  \<open>runSimulation\<close> on the \<open>params\<close> it has built, with the number of trials and the
  seed: the generator is \<open>createLCG(Number(seed) || 1)\<close>, the trials start at once, and
  the summaries, the worst cases and the histograms (bin size 5) follow. The copy of
  \<open>params\<close> and the per-star rows, which are formatted text, are left out of the
  result.
\<close>

definition runSimulation :: "params \<Rightarrow> nat \<Rightarrow> int \<Rightarrow> results option" where
  "runSimulation p trials seed =
     (case trialLoop p rand trials
             \<lparr>starsAttempts = [], starsGolds = [], fullAttempts = [], fullGolds = [],
              starsAttemptsPerStar = replicate (numStars p) [],
              fullAttemptsPerStar = replicate (numStars p) []\<rparr>
             (createLCG (if seed = 0 then 1 else seed)) of
        None \<Rightarrow> None
      | Some (b, s) \<Rightarrow>
          (case worstCaseStarsOnly p of
             None \<Rightarrow> None
           | Some wcS \<Rightarrow>
               (case worstCaseFull p of
                  None \<Rightarrow> None
                | Some wcF \<Rightarrow>
                    Some \<lparr>starsSummary = summarize (starsAttempts b) (starsGolds b),
                          fullSummary = summarize (fullAttempts b) (fullGolds b),
                          starsHistogram = makeHistogram (map real (starsAttempts b)) 5,
                          fullHistogram = makeHistogram (map real (fullAttempts b)) 5,
                          wcStars = wcS,
                          wcFull = wcF\<rparr>)))"

subsection \<open>The configurations of Run Diagnostics\<close>

text \<open>Test 1, "p=1 deterministic (3 stars)", and test 2, "p=0 equals worst-case (2 stars)".\<close>

definition diagnostics1 :: params where
  "diagnostics1 =
     \<lparr>goldPerAttempt = 100, starProbs = [1, 1, 1], finalProb = 1,
      starPityThreshold = 6, finalPityThreshold = 6,
      starPityResetsOnAnyFail = False, numStars = 3\<rparr>"

definition diagnostics2 :: params where
  "diagnostics2 =
     \<lparr>goldPerAttempt = 100, starProbs = [0, 0], finalProb = 0,
      starPityThreshold = 2, finalPityThreshold = 2,
      starPityResetsOnAnyFail = False, numStars = 2\<rparr>"

section \<open>Properties\<close>

subsection \<open>Double arithmetic\<close>

lemma bitLength_pos: "0 < n \<Longrightarrow> 0 < bitLength n"
  by (subst bitLength.simps) simp

lemma bitLength_lower: "0 < n \<Longrightarrow> 2 ^ (bitLength n - 1) \<le> n"
proof (induction n rule: bitLength.induct)
  case (1 n)
  show ?case
  proof (cases "n div 2 = 0")
    case True
    then have "bitLength (n div 2) = 0" by (simp add: bitLength.simps)
    with "1.prems" show ?thesis by (subst bitLength.simps) simp
  next
    case False
    then have half: "0 < n div 2" by simp
    from "1.prems" have n: "n \<noteq> 0" by simp
    have "2 ^ (bitLength (n div 2) - 1) \<le> n div 2"
      using "1.IH" [OF n half] .
    moreover have "bitLength (n div 2) = Suc (bitLength (n div 2) - 1)"
      using bitLength_pos [OF half] by simp
    ultimately have "2 ^ bitLength (n div 2) \<le> 2 * (n div 2)"
      by (metis mult_le_mono2 power_Suc)
    also have "\<dots> \<le> n" by simp
    finally show ?thesis using n by (subst bitLength.simps) simp
  qed
qed

lemma roundEven_of_int: "roundEven (of_int m) = m"
  by (simp add: roundEven_def)

lemma toDouble_grid:
  assumes "x = of_int m * 2 powi (max (exponent x) (- 1022) - 52)"
  shows "toDouble x = x"
proof (cases "x = 0")
  case True
  then show ?thesis by (simp add: toDouble_def)
next
  case False
  let ?P = "(2::real) powi (max (exponent x) (- 1022) - 52)"
  have P: "?P \<noteq> 0" by simp
  have "x / ?P = of_int m" using assms P by (metis nonzero_mult_div_cancel_right)
  then have "of_int (roundEven (x / ?P)) * ?P = x"
    using assms by (simp only: roundEven_of_int)
  then show ?thesis using False by (simp add: toDouble_def Let_def)
qed

lemma toDouble_of_nat:
  assumes "k \<le> 2 ^ 53"
  shows "toDouble (of_nat k) = of_nat k"
proof (cases "k = 0")
  case True
  then show ?thesis by (simp add: toDouble_def)
next
  case False
  then have pos: "0 < k" by simp
  define e where "e = bitLength k - 1"
  have low: "2 ^ e \<le> k" unfolding e_def using bitLength_lower [OF pos] .
  with assms have "(2::nat) ^ e \<le> 2 ^ 53" by simp
  then have e53: "e \<le> 53" by (rule power_le_imp_le_exp [rotated]) simp
  have ex: "exponent (of_nat k) = int e"
    using pos bitLength_pos [OF pos] by (simp add: exponent_def e_def)
  have u: "max (exponent (real k)) (- 1022) - 52 = int e - 52" by (simp add: ex)
  show ?thesis
  proof (cases "e \<le> 52")
    case True
    have eq: "int e - 52 = - int (52 - e)" using True by simp
    have "(2::real) powi (- int (52 - e)) = inverse (2 powi int (52 - e))"
      by (rule power_int_minus)
    also have "\<dots> = inverse (2 ^ (52 - e))" by (simp only: power_int_of_nat)
    finally have p: "(2::real) powi (int e - 52) = inverse (2 ^ (52 - e))"
      by (simp only: eq)
    have "of_int (int k * 2 ^ (52 - e)) * (2::real) powi (int e - 52) = real k"
      by (simp only: p) simp
    then have "real k = of_int (int k * 2 ^ (52 - e)) * 2 powi (max (exponent (real k)) (- 1022) - 52)"
      by (simp only: u)
    then show ?thesis by (rule toDouble_grid)
  next
    case False
    with e53 have e: "e = 53" by simp
    with low assms have k: "k = 2 ^ 53" by simp
    have "int e - 52 = 1" by (simp add: e)
    then have "of_int (2 ^ 52) * (2::real) powi (int e - 52) = real k"
      by (simp add: k)
    then have "real k = of_int (2 ^ 52) * 2 powi (max (exponent (real k)) (- 1022) - 52)"
      by (simp only: u)
    then show ?thesis by (rule toDouble_grid)
  qed
qed

lemma toDouble_numeral:
  "numeral n \<le> (9007199254740992::nat) \<Longrightarrow> toDouble (numeral n) = numeral n"
  using toDouble_of_nat [of "numeral n"] by simp

lemma jsAdd_of_nat:
  "a + b \<le> 2 ^ 53 \<Longrightarrow> jsAdd (of_nat a) (of_nat b) = of_nat (a + b)"
  using toDouble_of_nat [of "a + b"] by (simp add: jsAdd_def)

lemma jsMul_of_nat:
  "a * b \<le> 2 ^ 53 \<Longrightarrow> jsMul (of_nat a) (of_nat b) = of_nat (a * b)"
  using toDouble_of_nat [of "a * b"] by (simp add: jsMul_def)

lemma toDouble_zero: "toDouble 0 = 0"
  by (simp add: toDouble_def)

text \<open>Integers up to \<open>2^53\<close> are doubles, so their sums and products are exact.\<close>

lemma goldSum_of_nat:
  "n * k \<le> 2 ^ 53 \<Longrightarrow> goldSum (of_nat k) n = of_nat (n * k)"
proof (induction n)
  case 0
  then show ?case by simp
next
  case (Suc n)
  then have "n * k \<le> 2 ^ 53" and le: "n * k + k \<le> 2 ^ 53" by simp_all
  with Suc.IH have "goldSum (of_nat k) n = of_nat (n * k)" by simp
  then show ?case using jsAdd_of_nat [OF le] by simp
qed

text \<open>
  The number \<open>0.1\<close> is the double \<open>3602879701896397 / 2^55\<close>. Added twelve times it
  gives the double \<open>1.2\<close>; twelve times \<open>0.1\<close> is the next double,
  \<open>1.2000000000000002\<close>.
\<close>

lemmas double_eval = toDouble_def exponent_def roundEven_def bitLength.simps Let_def

lemma tenth: "toDouble (1 / 10) = 3602879701896397 / 36028797018963968"
  by (simp add: double_eval)

lemma tenth_sums:
  "jsAdd 0 (3602879701896397 / 36028797018963968) = 3602879701896397 / 36028797018963968"
  "jsAdd (3602879701896397 / 36028797018963968) (3602879701896397 / 36028797018963968) = 3602879701896397 / 18014398509481984"
  "jsAdd (3602879701896397 / 18014398509481984) (3602879701896397 / 36028797018963968) = 1351079888211149 / 4503599627370496"
  "jsAdd (1351079888211149 / 4503599627370496) (3602879701896397 / 36028797018963968) = 3602879701896397 / 9007199254740992"
  "jsAdd (3602879701896397 / 9007199254740992) (3602879701896397 / 36028797018963968) = 1 / 2"
  "jsAdd (1 / 2) (3602879701896397 / 36028797018963968) = 5404319552844595 / 9007199254740992"
  "jsAdd (5404319552844595 / 9007199254740992) (3602879701896397 / 36028797018963968) = 3152519739159347 / 4503599627370496"
  "jsAdd (3152519739159347 / 4503599627370496) (3602879701896397 / 36028797018963968) = 7205759403792793 / 9007199254740992"
  "jsAdd (7205759403792793 / 9007199254740992) (3602879701896397 / 36028797018963968) = 2026619832316723 / 2251799813685248"
  "jsAdd (2026619832316723 / 2251799813685248) (3602879701896397 / 36028797018963968) = 9007199254740991 / 9007199254740992"
  "jsAdd (9007199254740991 / 9007199254740992) (3602879701896397 / 36028797018963968) = 4953959590107545 / 4503599627370496"
  "jsAdd (4953959590107545 / 4503599627370496) (3602879701896397 / 36028797018963968) = 5404319552844595 / 4503599627370496"
  by (simp_all add: jsAdd_def double_eval)

lemma goldSum_12:
  "goldSum g 12 =
     jsAdd (jsAdd (jsAdd (jsAdd (jsAdd (jsAdd (jsAdd (jsAdd (jsAdd (jsAdd (jsAdd (jsAdd
       0 g) g) g) g) g) g) g) g) g) g) g) g"
  by (simp add: eval_nat_numeral)

lemma goldSum_tenth:
  "goldSum (toDouble (1 / 10)) 12 = 5404319552844595 / 4503599627370496"
  by (simp only: goldSum_12 tenth tenth_sums)

lemma jsMul_tenth:
  "jsMul 12 (toDouble (1 / 10)) = 1351079888211149 / 1125899906842624"
  by (simp add: tenth jsMul_def double_eval)

subsection \<open>The generator's range\<close>

lemma rand_nonneg: "0 \<le> fst (rand state)"
  by (simp add: rand_def Let_def del: of_nat_unat)

lemma rand_le_one: "fst (rand state) \<le> 1"
proof -
  have "unat (1664525 * state + 1013904223) < 2 ^ 32"
    using unsigned_less [of "1664525 * state + 1013904223"] by simp
  then have "unat (1664525 * state + 1013904223) \<le> 4294967295" by simp
  then have "real (unat (1664525 * state + 1013904223)) \<le> 4294967295"
    by (metis of_nat_le_iff of_nat_numeral)
  then show ?thesis by (simp add: rand_def Let_def del: of_nat_unat)
qed

lemma nthDraw_range: "0 \<le> nthDraw seed n \<and> nthDraw seed n \<le> 1"
  by (simp add: nthDraw_def rand_nonneg rand_le_one)

text \<open>
  C4. Every draw is meant to lie in \<open>[0,1)\<close>. The divisor is \<open>0xffffffff\<close>, so the state
  \<open>0xffffffff\<close> is returned as exactly 1: seed 653637408 reaches it on its first draw.
\<close>

theorem createLCG_first_draw_is_one: "nthDraw 653637408 0 = 1 \<and> \<not> nthDraw 653637408 0 < 1"
  by (simp add: nthDraw_def createLCG_def rand_def Let_def)

subsection \<open>Worst case: the closed form\<close>

lemma worstStarLoop_done:
  "\<not> c < numStars p \<Longrightarrow> worstStarLoop p pf c n = Some (pf, n)"
  by (subst worstStarLoop.simps) simp

lemma worstStarLoop_success:
  "c < numStars p \<Longrightarrow> c < length pf \<Longrightarrow> starPityThreshold p \<le> pf ! c \<Longrightarrow>
   worstStarLoop p pf c n = worstStarLoop p (pf[c := 0]) (c + 1) (n + 1)"
  by (subst worstStarLoop.simps) simp

lemma worstStarLoop_failure:
  "c < numStars p \<Longrightarrow> c < length pf \<Longrightarrow> pf ! c < starPityThreshold p \<Longrightarrow>
   worstStarLoop p pf c n = worstStarLoop p (pf[c := pf ! c + 1]) 0 (n + 1)"
  by (subst worstStarLoop.simps) simp

lemma worstStarLoop_star:
  assumes reach: "\<And>pf n. length pf = numStars p \<Longrightarrow> \<forall>j<k. pf ! j = 0 \<Longrightarrow>
            worstStarLoop p pf 0 n = worstStarLoop p pf k (n + a)"
    and k: "k < numStars p"
  shows "length pf = numStars p \<Longrightarrow> \<forall>j<k. pf ! j = 0 \<Longrightarrow> pf ! k \<le> starPityThreshold p \<Longrightarrow>
         d = starPityThreshold p - pf ! k \<Longrightarrow>
         worstStarLoop p pf 0 n = worstStarLoop p (pf[k := 0]) (Suc k) (n + (d + 1) * (a + 1))"
proof (induction d arbitrary: pf n)
  case 0
  then have top: "starPityThreshold p \<le> pf ! k" by simp
  have "worstStarLoop p pf 0 n = worstStarLoop p pf k (n + a)"
    using reach 0 by simp
  also have "\<dots> = worstStarLoop p (pf[k := 0]) (k + 1) (n + a + 1)"
    using worstStarLoop_success [of k p pf "n + a"] k 0 top by simp
  finally show ?case by simp
next
  case (Suc d)
  then have low: "pf ! k < starPityThreshold p" by simp
  let ?pf = "pf[k := pf ! k + 1]"
  have "worstStarLoop p pf 0 n = worstStarLoop p pf k (n + a)"
    using reach Suc.prems by simp
  also have "\<dots> = worstStarLoop p ?pf 0 (n + a + 1)"
    using worstStarLoop_failure [of k p pf "n + a"] k Suc.prems low by simp
  also have "\<dots> = worstStarLoop p (?pf[k := 0]) (Suc k) (n + a + 1 + (d + 1) * (a + 1))"
  proof (rule Suc.IH)
    show "length ?pf = numStars p" using Suc.prems by simp
    show "\<forall>j<k. ?pf ! j = 0" using Suc.prems by simp
    show "?pf ! k \<le> starPityThreshold p" using Suc.prems k low by simp
    show "d = starPityThreshold p - ?pf ! k" using Suc.prems k by simp
  qed
  finally show ?case by (simp add: algebra_simps)
qed

lemma worstStarLoop_reach:
  "k \<le> numStars p \<Longrightarrow> length pf = numStars p \<Longrightarrow> \<forall>j<k. pf ! j = 0 \<Longrightarrow>
   worstStarLoop p pf 0 n = worstStarLoop p pf k (n + worstBuild (starPityThreshold p) k)"
proof (induction k arbitrary: pf n)
  case 0
  then show ?case by simp
next
  case (Suc k)
  have reach: "\<And>pf n. length pf = numStars p \<Longrightarrow> \<forall>j<k. pf ! j = 0 \<Longrightarrow>
      worstStarLoop p pf 0 n = worstStarLoop p pf k (n + worstBuild (starPityThreshold p) k)"
    using Suc.IH Suc.prems(1) by simp
  have zero: "pf ! k = 0" using Suc.prems by simp
  have "worstStarLoop p pf 0 n =
        worstStarLoop p (pf[k := 0]) (Suc k)
          (n + (starPityThreshold p + 1) * (worstBuild (starPityThreshold p) k + 1))"
    using worstStarLoop_star [where p = p and k = k and pf = pf and n = n
        and d = "starPityThreshold p" and a = "worstBuild (starPityThreshold p) k", OF reach]
      Suc.prems zero
    by simp
  moreover have "pf[k := 0] = pf"
    using zero by (metis list_update_id)
  ultimately show ?case by simp
qed

lemma worstStarLoop_fresh:
  "worstStarLoop p (replicate (numStars p) 0) 0 n =
     Some (replicate (numStars p) 0, n + worstBuild (starPityThreshold p) (numStars p))"
  using worstStarLoop_reach [of "numStars p" p "replicate (numStars p) 0" n]
  by (simp add: worstStarLoop_done)

lemma worstFullLoop_fresh:
  "finalPityThreshold p - f = d \<Longrightarrow> f \<le> finalPityThreshold p \<Longrightarrow>
   worstFullLoop p (replicate (numStars p) 0) f n =
     Some (n + (d + 1) * (worstBuild (starPityThreshold p) (numStars p) + 1))"
proof (induction d arbitrary: f n)
  case 0
  then show ?case
    by (subst worstFullLoop.simps) (simp add: worstStarLoop_fresh)
next
  case (Suc d)
  then have low: "\<not> finalPityThreshold p \<le> f" by simp
  have "worstFullLoop p (replicate (numStars p) 0) f n =
        worstFullLoop p (replicate (numStars p) 0) (f + 1)
          (n + worstBuild (starPityThreshold p) (numStars p) + 1)"
    using low by (subst worstFullLoop.simps) (simp add: worstStarLoop_fresh)
  also have "\<dots> = Some (n + worstBuild (starPityThreshold p) (numStars p) + 1 +
                       (d + 1) * (worstBuild (starPityThreshold p) (numStars p) + 1))"
    using Suc.prems by (intro Suc.IH) simp_all
  finally show ?case by (simp add: algebra_simps)
qed

lemma worstCaseStarsOnly_finite:
  "\<not> starPityResetsOnAnyFail p \<Longrightarrow>
   worstCaseStarsOnly p =
     Some \<lparr>wcAttempts = Fin (worstBuild (starPityThreshold p) (numStars p)),
           wcGold = Fin (jsMul (real (worstBuild (starPityThreshold p) (numStars p)))
                          (goldPerAttempt p))\<rparr>"
  by (simp add: worstCaseStarsOnly_def worstStarLoop_fresh)

lemma worstCaseFull_finite:
  "\<not> starPityResetsOnAnyFail p \<Longrightarrow>
   worstCaseFull p =
     Some \<lparr>wcAttempts = Fin ((finalPityThreshold p + 1) * (worstBuild (starPityThreshold p) (numStars p) + 1)),
           wcGold = Fin (jsMul (real ((finalPityThreshold p + 1) *
                                      (worstBuild (starPityThreshold p) (numStars p) + 1)))
                          (goldPerAttempt p))\<rparr>"
  using worstFullLoop_fresh [of p 0 "finalPityThreshold p" 0]
  by (simp add: worstCaseFull_def)



text \<open>
  C7. Without the reset rule, every repetition of the star phase in \<open>worstCaseFull\<close>
  starts and ends with all star pity counters at zero and costs the attempts \<open>n\<close> of
  \<open>worstCaseStarsOnly\<close>, so \<open>worstCaseFull\<close> counts
  \<open>(finalPityThreshold + 1) * (n + 1)\<close> attempts.
\<close>

theorem worstCaseFull_attempts:
  assumes "\<not> starPityResetsOnAnyFail p"
  shows "\<exists>n wcS wcF.
           worstCaseStarsOnly p = Some wcS \<and> wcAttempts wcS = Fin n \<and>
           (\<forall>a. worstStarLoop p (replicate (numStars p) 0) 0 a
                  = Some (replicate (numStars p) 0, a + n)) \<and>
           worstCaseFull p = Some wcF \<and>
           wcAttempts wcF = Fin ((finalPityThreshold p + 1) * (n + 1))"
  using assms worstCaseStarsOnly_finite [of p] worstCaseFull_finite [of p]
    worstStarLoop_fresh [of p]
  by simp

theorem worstCaseFull_attempts_witness:
  "\<not> starPityResetsOnAnyFail diagnostics2 \<and>
   (\<exists>n wcS wcF.
      worstCaseStarsOnly diagnostics2 = Some wcS \<and> wcAttempts wcS = Fin n \<and>
      (\<forall>a. worstStarLoop diagnostics2 (replicate (numStars diagnostics2) 0) 0 a
             = Some (replicate (numStars diagnostics2) 0, a + n)) \<and>
      worstCaseFull diagnostics2 = Some wcF \<and>
      wcAttempts wcF = Fin ((finalPityThreshold diagnostics2 + 1) * (n + 1)))"
proof -
  have no: "\<not> starPityResetsOnAnyFail diagnostics2"
    by (simp add: diagnostics2_def)
  show ?thesis
    using no worstCaseFull_attempts [OF no] by blast
qed

subsection \<open>Simulators: unfolding and invariants\<close>

lemma starLoop_done:
  "\<not> i < numStars p \<Longrightarrow> starLoop p rnd r pf i s = Some (r, pf, s)"
  by (subst starLoop.simps) simp

lemma starLoop_step:
  "i < numStars p \<Longrightarrow> i < length pf \<Longrightarrow> i < length (starAttempts r) \<Longrightarrow>
   starLoop p rnd r pf i s =
     (case attemptStar p rnd r pf i s of (r', pf', i', s') \<Rightarrow> starLoop p rnd r' pf' i' s')"
  by (subst starLoop.simps) simp

lemma fullLoop_step:
  "starLoop p rnd r pf 0 s = Some (r1, pf1, s1) \<Longrightarrow>
   fullLoop p rnd r pf f s =
     (case finalSuccess p rnd f s1 of
        (success, s2) \<Rightarrow>
          if success
          then Some (r1\<lparr>attempts := attempts r1 + 1,
                        gold := jsAdd (gold r1) (goldPerAttempt p)\<rparr>, f, s2)
          else fullLoop p rnd (r1\<lparr>attempts := attempts r1 + 1,
                                 gold := jsAdd (gold r1) (goldPerAttempt p)\<rparr>)
                 (handleFailReset p pf1) (f + 1) s2)"
  by (subst fullLoop.simps) (simp add: Let_def split: prod.split)

lemma attemptStar_run:
  "fst (attemptStar p rnd r pf i s) =
     r\<lparr>attempts := attempts r + 1, gold := jsAdd (gold r) (goldPerAttempt p),
       starAttempts := (starAttempts r)[i := starAttempts r ! i + 1]\<rparr>"
  by (simp add: attemptStar_def Let_def split_beta)

text \<open>
  A property of the counters that every star attempt preserves holds of the counters the
  star loop returns.
\<close>

lemma starLoop_invariant:
  assumes "starLoop p rnd r pf i s = Some res"
    and "I p r"
    and step: "\<And>p r i. I p r \<Longrightarrow> i < length (starAttempts r) \<Longrightarrow>
           I p (r\<lparr>attempts := attempts r + 1, gold := jsAdd (gold r) (goldPerAttempt p),
                  starAttempts := (starAttempts r)[i := starAttempts r ! i + 1]\<rparr>)"
  shows "I p (fst res)"
  using assms(1,2)
proof (induction p rnd r pf i s res rule: starLoop.raw_induct [rotated 1, consumes 1])
  case (1 loop p rnd r pf i s res)
  show ?case
  proof (cases "i < numStars p")
    case False
    with "1.prems" "1.hyps" show ?thesis by auto
  next
    case True
    with "1.hyps" have inr: "i < length pf \<and> i < length (starAttempts r)"
      by (simp split: if_splits)
    obtain r1 pf1 i1 s1 where st: "attemptStar p rnd r pf i s = (r1, pf1, i1, s1)"
      by (metis prod_cases4)
    with True inr "1.hyps" have rec: "loop p rnd r1 pf1 i1 s1 = Some res" by simp
    have "r1 = fst (attemptStar p rnd r pf i s)" using st by simp
    then have "I p r1"
      using "1.prems" inr step [of p r i] by (simp add: attemptStar_run)
    with "1.IH" [OF rec] show ?thesis .
  qed
qed

lemma sum_list_bump:
  "i < length xs \<Longrightarrow> sum_list (xs[i := Suc (xs ! i)]) = Suc (sum_list xs)"
  by (simp add: sum_list_update)

lemma starLoop_gold:
  assumes "starLoop p rnd r pf i s = Some res"
    and "gold r = goldSum (goldPerAttempt p) (attempts r)"
  shows "gold (fst res) = goldSum (goldPerAttempt p) (attempts (fst res))"
  by (rule starLoop_invariant
        [OF assms(1), where I = "\<lambda>p r. gold r = goldSum (goldPerAttempt p) (attempts r)"])
     (simp_all add: assms(2))

lemma starLoop_sum:
  assumes "starLoop p rnd r pf i s = Some res"
    and "attempts r = sum_list (starAttempts r) + k"
  shows "attempts (fst res) = sum_list (starAttempts (fst res)) + k"
  by (rule starLoop_invariant [OF assms(1), where I = "\<lambda>p r. attempts r = sum_list (starAttempts r) + k"])
     (simp_all add: assms(2) sum_list_bump)

lemma fullLoop_gold:
  assumes "fullLoop p rnd r pf f s = Some res"
    and "gold r = goldSum (goldPerAttempt p) (attempts r)"
  shows "gold (fst res) = goldSum (goldPerAttempt p) (attempts (fst res))"
  using assms
proof (induction p rnd r pf f s res rule: fullLoop.raw_induct [rotated 1, consumes 1])
  case (1 loop p rnd r pf f s res)
  from "1.hyps" obtain r1 pf1 s1 where star: "starLoop p rnd r pf 0 s = Some (r1, pf1, s1)"
    by (auto split: option.splits)
  let ?r2 = "r1\<lparr>attempts := attempts r1 + 1, gold := jsAdd (gold r1) (goldPerAttempt p)\<rparr>"
  have g1: "gold r1 = goldSum (goldPerAttempt p) (attempts r1)"
    using starLoop_gold [OF star "1.prems"] by simp
  then have g2: "gold ?r2 = goldSum (goldPerAttempt p) (attempts ?r2)"
    by simp
  obtain ok s2 where fin: "finalSuccess p rnd f s1 = (ok, s2)"
    by (metis surj_pair)
  show ?case
  proof (cases ok)
    case True
    with "1.hyps" star fin have "res = (?r2, f, s2)" by (simp add: Let_def)
    with g2 show ?thesis by simp
  next
    case False
    with "1.hyps" star fin
    have "loop p rnd ?r2 (handleFailReset p pf1) (f + 1) s2 = Some res" by (simp add: Let_def)
    from "1.IH" [OF this g2] show ?thesis .
  qed
qed

lemma fullLoop_sum:
  assumes "fullLoop p rnd r pf f s = Some res"
    and "attempts r = sum_list (starAttempts r) + f"
  shows "attempts (fst res) = sum_list (starAttempts (fst res)) + (fst (snd res) + 1)"
  using assms
proof (induction p rnd r pf f s res rule: fullLoop.raw_induct [rotated 1, consumes 1])
  case (1 loop p rnd r pf f s res)
  from "1.hyps" obtain r1 pf1 s1 where star: "starLoop p rnd r pf 0 s = Some (r1, pf1, s1)"
    by (auto split: option.splits)
  let ?r2 = "r1\<lparr>attempts := attempts r1 + 1, gold := jsAdd (gold r1) (goldPerAttempt p)\<rparr>"
  have a1: "attempts r1 = sum_list (starAttempts r1) + f"
    using starLoop_sum [OF star "1.prems"] by simp
  then have a2: "attempts ?r2 = sum_list (starAttempts ?r2) + (f + 1)"
    by simp
  obtain ok s2 where fin: "finalSuccess p rnd f s1 = (ok, s2)"
    by (metis surj_pair)
  show ?case
  proof (cases ok)
    case True
    with "1.hyps" star fin have "res = (?r2, f, s2)" by (simp add: Let_def)
    with a2 show ?thesis by simp
  next
    case False
    with "1.hyps" star fin
    have "loop p rnd ?r2 (handleFailReset p pf1) (f + 1) s2 = Some res" by (simp add: Let_def)
    from "1.IH" [OF this a2] show ?thesis .
  qed
qed

subsection \<open>The generator on the configurations of Run Diagnostics\<close>

lemma rand_seed1:
  "rand 1 = (1015568748 / 4294967295, 1015568748)"
  "rand 1015568748 = (1586005467 / 4294967295, 1586005467)"
  "rand 1586005467 = (2165703038 / 4294967295, 2165703038)"
  "rand 2165703038 = (3027450565 / 4294967295, 3027450565)"
  "rand 3027450565 = (217083232 / 4294967295, 217083232)"
  "rand 217083232 = (1587069247 / 4294967295, 1587069247)"
  "rand 1587069247 = (3327581586 / 4294967295, 3327581586)"
  by (simp_all add: rand_def Let_def)

lemma rand_seed653637408:
  "rand 653637408 = (1, 4294967295)"
  "rand 4294967295 = (1012239698 / 4294967295, 1012239698)"
  "rand 1012239698 = (806866057 / 4294967295, 806866057)"
  "rand 806866057 = (579071060 / 4294967295, 579071060)"
  "rand 579071060 = (2709482403 / 4294967295, 2709482403)"
  "rand 2709482403 = (3082116262 / 4294967295, 3082116262)"
  "rand 3082116262 = (3754216397 / 4294967295, 3754216397)"
  "rand 3754216397 = (3919968968 / 4294967295, 3919968968)"
  by (simp_all add: rand_def Let_def)

lemmas unfold_star =
  starLoop_done starLoop_step attemptStar_def starSuccess_def handleFailReset_def
  Let_def split_beta

lemmas whole_gold = jsAdd_def jsMul_def toDouble_numeral toDouble_zero

lemma diagnostics1_seed1_stars:
  "simulateStarsOnly diagnostics1 rand (createLCG 1)
     = Some (\<lparr>attempts = 3, gold = 300, starAttempts = [1, 1, 1]\<rparr>, 2165703038)"
  by (simp add: simulateStarsOnly_def createLCG_def unfold_star diagnostics1_def
        rand_seed1 numeral_3_eq_3 whole_gold)

lemma diagnostics1_seed1_fullLoop:
  "fullLoop diagnostics1 rand \<lparr>attempts = 0, gold = 0, starAttempts = [0, 0, 0]\<rparr> [0, 0, 0] 0
     2165703038
     = Some (\<lparr>attempts = 4, gold = 400, starAttempts = [1, 1, 1]\<rparr>, 0, 3327581586)"
proof -
  have "starLoop diagnostics1 rand \<lparr>attempts = 0, gold = 0, starAttempts = [0, 0, 0]\<rparr>
          [0, 0, 0] 0 2165703038
        = Some (\<lparr>attempts = 3, gold = 300, starAttempts = [1, 1, 1]\<rparr>, [0, 0, 0], 1587069247)"
    by (simp add: unfold_star diagnostics1_def rand_seed1 numeral_3_eq_3 whole_gold)
  then show ?thesis
    by (simp add: fullLoop_step finalSuccess_def diagnostics1_def rand_seed1 Let_def
          whole_gold)
qed

lemma diagnostics1_seed1_full:
  "simulateFullRun diagnostics1 rand 2165703038
     = Some (\<lparr>attempts = 4, gold = 400, starAttempts = [1, 1, 1]\<rparr>, 3327581586)"
proof -
  have "replicate (numStars diagnostics1) (0::nat) = [0, 0, 0]"
    by (simp add: diagnostics1_def numeral_3_eq_3)
  then show ?thesis
    by (simp add: simulateFullRun_def diagnostics1_seed1_fullLoop)
qed

text \<open>
  With draws strictly below 1 the runs of test 1 are the expected ones, from any state of
  any generator.
\<close>

lemma diagnostics1_below_one_stars:
  assumes "\<forall>s. fst (rnd s) < 1"
  shows "\<exists>s'. simulateStarsOnly diagnostics1 rnd s
           = Some (\<lparr>attempts = 3, gold = 300, starAttempts = [1, 1, 1]\<rparr>, s')"
  by (simp add: simulateStarsOnly_def unfold_star diagnostics1_def assms numeral_3_eq_3
        whole_gold)

lemma diagnostics1_below_one_full:
  assumes "\<forall>s. fst (rnd s) < 1"
  shows "\<exists>s'. simulateFullRun diagnostics1 rnd s
           = Some (\<lparr>attempts = 4, gold = 400, starAttempts = [1, 1, 1]\<rparr>, s')"
proof -
  have "starLoop diagnostics1 rnd \<lparr>attempts = 0, gold = 0, starAttempts = [0, 0, 0]\<rparr>
          [0, 0, 0] 0 s
        = Some (\<lparr>attempts = 3, gold = 300, starAttempts = [1, 1, 1]\<rparr>, [0, 0, 0],
                snd (rnd (snd (rnd (snd (rnd s))))))"
    by (simp add: unfold_star diagnostics1_def assms numeral_3_eq_3 whole_gold)
  then have "fullLoop diagnostics1 rnd \<lparr>attempts = 0, gold = 0, starAttempts = [0, 0, 0]\<rparr>
          [0, 0, 0] 0 s
        = Some (\<lparr>attempts = 4, gold = 400, starAttempts = [1, 1, 1]\<rparr>, 0,
                snd (rnd (snd (rnd (snd (rnd (snd (rnd s))))))))"
    by (simp add: fullLoop_step finalSuccess_def diagnostics1_def assms split_beta
          whole_gold)
  moreover have "replicate (numStars diagnostics1) (0::nat) = [0, 0, 0]"
    by (simp add: diagnostics1_def numeral_3_eq_3)
  ultimately show ?thesis by (simp add: simulateFullRun_def)
qed

text \<open>
  C6. With every probability 1 the runs are meant to take 3 and 4 attempts for every
  seed. A draw of exactly 1 fails the test \<open>rand() < 1\<close>: from seed 653637408 the first
  attempt on star 1 fails and \<open>simulateStarsOnly\<close> returns 4 attempts, \<open>[2, 1, 1]\<close>.
\<close>

theorem diagnostics1_seed653637408_stars:
  "simulateStarsOnly diagnostics1 rand (createLCG 653637408)
     = Some (\<lparr>attempts = 4, gold = 400, starAttempts = [2, 1, 1]\<rparr>, 579071060)"
  by (simp add: simulateStarsOnly_def createLCG_def unfold_star diagnostics1_def
        rand_seed653637408 numeral_3_eq_3 whole_gold)

lemma rand_seed42:
  "rand 42 = (1083814273 / 4294967295, 1083814273)"
  "rand 1083814273 = (378494188 / 4294967295, 378494188)"
  "rand 378494188 = (2479403867 / 4294967295, 2479403867)"
  "rand 2479403867 = (955863294 / 4294967295, 955863294)"
  "rand 955863294 = (1613448261 / 4294967295, 1613448261)"
  "rand 1613448261 = (110225632 / 4294967295, 110225632)"
  "rand 110225632 = (1921058495 / 4294967295, 1921058495)"
  "rand 1921058495 = (508781842 / 4294967295, 508781842)"
  by (simp_all add: rand_def Let_def)

lemma diagnostics1_worst:
  "worstCaseStarsOnly diagnostics1 = Some \<lparr>wcAttempts = Fin 399, wcGold = Fin 39900\<rparr>"
  "worstCaseFull diagnostics1 = Some \<lparr>wcAttempts = Fin 2800, wcGold = Fin 280000\<rparr>"
  using worstCaseStarsOnly_finite [of diagnostics1] worstCaseFull_finite [of diagnostics1]
  by (simp_all add: diagnostics1_def numeral_3_eq_3 whole_gold)

text \<open>
  C5. Gold is meant to be attempts times \<open>goldPerAttempt\<close> in every returned run. The
  simulators add \<open>goldPerAttempt\<close> once per attempt, in doubles: with test 2 at
  \<open>goldPerAttempt = 0.1\<close> and seed 42, \<open>simulateStarsOnly\<close> returns 12 attempts and
  the gold \<open>1.2\<close>, while \<open>12 * 0.1\<close> is \<open>1.2000000000000002\<close> in doubles and
  neither of the two as a real number.
\<close>

theorem gold_of_tenths:
  "simulateStarsOnly (diagnostics2\<lparr>goldPerAttempt := toDouble (1 / 10)\<rparr>) rand (createLCG 42)
     = Some (\<lparr>attempts = 12, gold = 5404319552844595 / 4503599627370496,
              starAttempts = [9, 3]\<rparr>, 508781842) \<and>
   jsMul (real (12::nat)) (toDouble (1 / 10)) = 1351079888211149 / 1125899906842624 \<and>
   (5404319552844595 / 4503599627370496 :: real) \<noteq> 1351079888211149 / 1125899906842624 \<and>
   (5404319552844595 / 4503599627370496 :: real) \<noteq> real (12::nat) * toDouble (1 / 10)"
proof -
  have "starLoop (diagnostics2\<lparr>goldPerAttempt := toDouble (1 / 10)\<rparr>) rand
          \<lparr>attempts = 0, gold = 0, starAttempts = [0, 0]\<rparr> [0, 0] 0 42
        = Some (\<lparr>attempts = 12, gold = 5404319552844595 / 4503599627370496,
                 starAttempts = [9, 3]\<rparr>, [0, 0], 508781842)"
    by (simp add: unfold_star diagnostics2_def rand_seed42 tenth tenth_sums)
  moreover have "replicate (numStars diagnostics2) (0::nat) = [0, 0]"
    by (simp add: diagnostics2_def numeral_2_eq_2)
  ultimately
  have "simulateStarsOnly (diagnostics2\<lparr>goldPerAttempt := toDouble (1 / 10)\<rparr>) rand
          (createLCG 42)
        = Some (\<lparr>attempts = 12, gold = 5404319552844595 / 4503599627370496,
                 starAttempts = [9, 3]\<rparr>, 508781842)"
    by (simp add: simulateStarsOnly_def createLCG_def)
  moreover have "jsMul (real (12::nat)) (toDouble (1 / 10))
                   = 1351079888211149 / 1125899906842624"
    using jsMul_tenth by simp
  moreover have "(5404319552844595 / 4503599627370496 :: real)
                   \<noteq> 1351079888211149 / 1125899906842624"
    by simp
  moreover have "(5404319552844595 / 4503599627370496 :: real)
                   \<noteq> real (12::nat) * toDouble (1 / 10)"
    by (simp add: tenth)
  ultimately show ?thesis by blast
qed

text \<open>
  C5, as the code has it. The gold of every returned run is \<open>goldPerAttempt\<close> added
  once per attempt from 0, in doubles, and the gold of every finite worst case is the
  double product of its attempts and \<open>goldPerAttempt\<close>. When \<open>goldPerAttempt\<close> is a
  whole number \<open>k\<close>, and \<open>m * k\<close> is at most \<open>2^53\<close>, the sum over \<open>m\<close> attempts and
  the product are both exactly \<open>m * goldPerAttempt\<close>.
\<close>

theorem gold_is_sum_of_goldPerAttempt:
  "(simulateStarsOnly p rnd s = Some (r, s') \<longrightarrow>
      gold r = goldSum (goldPerAttempt p) (attempts r)) \<and>
   (simulateFullRun p rnd t = Some (r2, t') \<longrightarrow>
      gold r2 = goldSum (goldPerAttempt p) (attempts r2)) \<and>
   (worstCaseStarsOnly p = Some w \<and> wcAttempts w = Fin n \<longrightarrow>
      wcGold w = Fin (jsMul (real n) (goldPerAttempt p))) \<and>
   (worstCaseFull p = Some w2 \<and> wcAttempts w2 = Fin n2 \<longrightarrow>
      wcGold w2 = Fin (jsMul (real n2) (goldPerAttempt p))) \<and>
   (goldPerAttempt p = real k \<and> m * k \<le> 2 ^ 53 \<longrightarrow>
      goldSum (goldPerAttempt p) m = real m * goldPerAttempt p \<and>
      jsMul (real m) (goldPerAttempt p) = real m * goldPerAttempt p)"
proof (intro conjI impI)
  assume "simulateStarsOnly p rnd s = Some (r, s')"
  then obtain pf where
    "starLoop p rnd \<lparr>attempts = 0, gold = 0, starAttempts = replicate (numStars p) 0\<rparr>
       (replicate (numStars p) 0) 0 s = Some (r, pf, s')"
    by (auto simp: simulateStarsOnly_def split: option.splits)
  from starLoop_gold [OF this] show "gold r = goldSum (goldPerAttempt p) (attempts r)"
    by simp
next
  assume "simulateFullRun p rnd t = Some (r2, t')"
  then obtain f where
    "fullLoop p rnd \<lparr>attempts = 0, gold = 0, starAttempts = replicate (numStars p) 0\<rparr>
       (replicate (numStars p) 0) 0 t = Some (r2, f, t')"
    by (auto simp: simulateFullRun_def split: option.splits)
  from fullLoop_gold [OF this] show "gold r2 = goldSum (goldPerAttempt p) (attempts r2)"
    by simp
next
  assume "worstCaseStarsOnly p = Some w \<and> wcAttempts w = Fin n"
  then show "wcGold w = Fin (jsMul (real n) (goldPerAttempt p))"
    by (auto simp: worstCaseStarsOnly_def split: if_splits option.splits)
next
  assume "worstCaseFull p = Some w2 \<and> wcAttempts w2 = Fin n2"
  then show "wcGold w2 = Fin (jsMul (real n2) (goldPerAttempt p))"
    by (auto simp: worstCaseFull_def split: if_splits option.splits)
next
  assume a: "goldPerAttempt p = real k \<and> m * k \<le> 2 ^ 53"
  then show "goldSum (goldPerAttempt p) m = real m * goldPerAttempt p"
    using goldSum_of_nat [of m k] by simp
  from a show "jsMul (real m) (goldPerAttempt p) = real m * goldPerAttempt p"
    using jsMul_of_nat [of m k] by simp
qed

theorem gold_is_sum_of_goldPerAttempt_witness:
  "simulateStarsOnly diagnostics1 rand (createLCG 1)
     = Some (\<lparr>attempts = 3, gold = 300, starAttempts = [1, 1, 1]\<rparr>, 2165703038) \<and>
   (300::real) = goldSum (goldPerAttempt diagnostics1) 3 \<and>
   simulateFullRun diagnostics1 rand 2165703038
     = Some (\<lparr>attempts = 4, gold = 400, starAttempts = [1, 1, 1]\<rparr>, 3327581586) \<and>
   (400::real) = goldSum (goldPerAttempt diagnostics1) 4 \<and>
   worstCaseStarsOnly diagnostics1 = Some \<lparr>wcAttempts = Fin 399, wcGold = Fin 39900\<rparr> \<and>
   Fin (39900::real) = Fin (jsMul (real (399::nat)) (goldPerAttempt diagnostics1)) \<and>
   worstCaseFull diagnostics1 = Some \<lparr>wcAttempts = Fin 2800, wcGold = Fin 280000\<rparr> \<and>
   Fin (280000::real) = Fin (jsMul (real (2800::nat)) (goldPerAttempt diagnostics1)) \<and>
   goldPerAttempt diagnostics1 = real (100::nat) \<and> (3::nat) * 100 \<le> 2 ^ 53 \<and>
   goldSum (goldPerAttempt diagnostics1) 3 = real (3::nat) * goldPerAttempt diagnostics1 \<and>
   jsMul (real (3::nat)) (goldPerAttempt diagnostics1)
     = real (3::nat) * goldPerAttempt diagnostics1"
proof -
  have k: "goldPerAttempt diagnostics1 = real (100::nat)" by (simp add: diagnostics1_def)
  have le: "(3::nat) * 100 \<le> 2 ^ 53" by simp
  note t = gold_is_sum_of_goldPerAttempt
    [of diagnostics1 rand "createLCG 1"
       "\<lparr>attempts = 3, gold = 300, starAttempts = [1, 1, 1]\<rparr>" 2165703038
       2165703038 "\<lparr>attempts = 4, gold = 400, starAttempts = [1, 1, 1]\<rparr>" 3327581586
       "\<lparr>wcAttempts = Fin 399, wcGold = Fin 39900\<rparr>" 399
       "\<lparr>wcAttempts = Fin 2800, wcGold = Fin 280000\<rparr>" 2800 100 3]
  show ?thesis
    using t diagnostics1_seed1_stars diagnostics1_seed1_full diagnostics1_worst k le
    by simp
qed

text \<open>
  C10. The per-star attempts of a returned stars-only run sum to its attempts. A returned
  full run has made one final attempt for each failed final attempt counted in
  \<open>finalPityFails\<close> and one more, the successful one: its attempts exceed the sum of
  the per-star attempts by \<open>finalPityFails + 1\<close>, which is at least 1.
\<close>

theorem attempts_by_star:
  "(simulateStarsOnly p rnd s = Some (r, s') \<longrightarrow> sum_list (starAttempts r) = attempts r) \<and>
   (simulateFullRun p rnd t = Some (r2, t') \<longrightarrow>
      (\<exists>finalPityFails.
         fullLoop p rnd \<lparr>attempts = 0, gold = 0, starAttempts = replicate (numStars p) 0\<rparr>
           (replicate (numStars p) 0) 0 t = Some (r2, finalPityFails, t') \<and>
         attempts r2 = sum_list (starAttempts r2) + (finalPityFails + 1) \<and>
         1 \<le> finalPityFails + 1))"
proof (intro conjI impI)
  assume "simulateStarsOnly p rnd s = Some (r, s')"
  then obtain pf where
    "starLoop p rnd \<lparr>attempts = 0, gold = 0, starAttempts = replicate (numStars p) 0\<rparr>
       (replicate (numStars p) 0) 0 s = Some (r, pf, s')"
    by (auto simp: simulateStarsOnly_def split: option.splits)
  from starLoop_sum [OF this, of 0] show "sum_list (starAttempts r) = attempts r"
    by simp
next
  assume "simulateFullRun p rnd t = Some (r2, t')"
  then obtain f where run:
    "fullLoop p rnd \<lparr>attempts = 0, gold = 0, starAttempts = replicate (numStars p) 0\<rparr>
       (replicate (numStars p) 0) 0 t = Some (r2, f, t')"
    by (auto simp: simulateFullRun_def split: option.splits)
  from fullLoop_sum [OF run] have "attempts r2 = sum_list (starAttempts r2) + (f + 1)"
    by simp
  with run show "\<exists>finalPityFails.
         fullLoop p rnd \<lparr>attempts = 0, gold = 0, starAttempts = replicate (numStars p) 0\<rparr>
           (replicate (numStars p) 0) 0 t = Some (r2, finalPityFails, t') \<and>
         attempts r2 = sum_list (starAttempts r2) + (finalPityFails + 1) \<and>
         1 \<le> finalPityFails + 1"
    by auto
qed

theorem attempts_by_star_witness:
  "simulateStarsOnly diagnostics1 rand (createLCG 1)
     = Some (\<lparr>attempts = 3, gold = 300, starAttempts = [1, 1, 1]\<rparr>, 2165703038) \<and>
   sum_list [1, 1, 1] = (3::nat) \<and>
   simulateFullRun diagnostics1 rand 2165703038
     = Some (\<lparr>attempts = 4, gold = 400, starAttempts = [1, 1, 1]\<rparr>, 3327581586) \<and>
   (\<exists>finalPityFails.
      fullLoop diagnostics1 rand
        \<lparr>attempts = 0, gold = 0, starAttempts = replicate (numStars diagnostics1) 0\<rparr>
        (replicate (numStars diagnostics1) 0) 0 2165703038
        = Some (\<lparr>attempts = 4, gold = 400, starAttempts = [1, 1, 1]\<rparr>, finalPityFails,
                3327581586) \<and>
      (4::nat) = sum_list [1, 1, 1] + (finalPityFails + 1))"
  using attempts_by_star
    [of diagnostics1 rand "createLCG 1"
       "\<lparr>attempts = 3, gold = 300, starAttempts = [1, 1, 1]\<rparr>" 2165703038
       2165703038 "\<lparr>attempts = 4, gold = 400, starAttempts = [1, 1, 1]\<rparr>" 3327581586]
    diagnostics1_seed1_stars diagnostics1_seed1_full
  by simp

subsection \<open>Probability 0: only pity succeeds\<close>

lemma diagnostics2_starLoop:
  assumes nonneg: "\<forall>s. \<not> fst (rnd s) < 0"
  shows "\<exists>c' s'. starLoop (diagnostics2\<lparr>goldPerAttempt := g\<rparr>) rnd
                \<lparr>attempts = a, gold = c, starAttempts = [x, y]\<rparr> [0, 0] 0 s
     = Some (\<lparr>attempts = a + 12, gold = c', starAttempts = [x + 9, y + 3]\<rparr>, [0, 0], s')"
  by (simp add: unfold_star diagnostics2_def nonneg)

lemma diagnostics2_fullLoop_2:
  assumes nonneg: "\<forall>s. \<not> fst (rnd s) < 0"
  shows "\<exists>r s'. fullLoop (diagnostics2\<lparr>goldPerAttempt := g\<rparr>) rnd
                \<lparr>attempts = a, gold = c, starAttempts = [x, y]\<rparr> [0, 0] 2 s
     = Some (r, 2, s') \<and> attempts r = a + 13"
proof -
  obtain c1 s1 where "starLoop (diagnostics2\<lparr>goldPerAttempt := g\<rparr>) rnd
                \<lparr>attempts = a, gold = c, starAttempts = [x, y]\<rparr> [0, 0] 0 s
     = Some (\<lparr>attempts = a + 12, gold = c1, starAttempts = [x + 9, y + 3]\<rparr>, [0, 0], s1)"
    using diagnostics2_starLoop [OF nonneg] by blast
  then show ?thesis
    by (simp add: fullLoop_step finalSuccess_def diagnostics2_def)
qed

lemma diagnostics2_fullLoop_next:
  assumes nonneg: "\<forall>s. \<not> fst (rnd s) < 0"
    and low: "f < 2"
  shows "\<exists>c' s1. fullLoop (diagnostics2\<lparr>goldPerAttempt := g\<rparr>) rnd
                \<lparr>attempts = a, gold = c, starAttempts = [x, y]\<rparr> [0, 0] f s
     = fullLoop (diagnostics2\<lparr>goldPerAttempt := g\<rparr>) rnd
                \<lparr>attempts = a + 13, gold = c', starAttempts = [x + 9, y + 3]\<rparr> [0, 0]
                (f + 1) s1"
proof -
  obtain c1 s1 where "starLoop (diagnostics2\<lparr>goldPerAttempt := g\<rparr>) rnd
                \<lparr>attempts = a, gold = c, starAttempts = [x, y]\<rparr> [0, 0] 0 s
     = Some (\<lparr>attempts = a + 12, gold = c1, starAttempts = [x + 9, y + 3]\<rparr>, [0, 0], s1)"
    using diagnostics2_starLoop [OF nonneg] by blast
  then have "fullLoop (diagnostics2\<lparr>goldPerAttempt := g\<rparr>) rnd
                \<lparr>attempts = a, gold = c, starAttempts = [x, y]\<rparr> [0, 0] f s
     = fullLoop (diagnostics2\<lparr>goldPerAttempt := g\<rparr>) rnd
                \<lparr>attempts = a + 13, gold = jsAdd c1 g, starAttempts = [x + 9, y + 3]\<rparr> [0, 0]
                (f + 1) (snd (rnd s1))"
    using low
    by (simp add: fullLoop_step finalSuccess_def handleFailReset_def diagnostics2_def
          split_beta nonneg algebra_simps)
  then show ?thesis by blast
qed

lemma diagnostics2_fullLoop:
  assumes nonneg: "\<forall>s. \<not> fst (rnd s) < 0"
  shows "2 - f = d \<Longrightarrow> f \<le> 2 \<Longrightarrow>
         \<exists>r s'. fullLoop (diagnostics2\<lparr>goldPerAttempt := g\<rparr>) rnd
                  \<lparr>attempts = a, gold = c, starAttempts = [x, y]\<rparr> [0, 0] f s
                = Some (r, 2, s') \<and> attempts r = a + 13 * (3 - f)"
proof (induction d arbitrary: f a c x y s)
  case 0
  then have "f = 2" by simp
  then show ?case
    using diagnostics2_fullLoop_2 [OF nonneg, where g = g and a = a and c = c and x = x
        and y = y and s = s]
    by simp
next
  case (Suc d)
  then have low: "f < 2" by simp
  obtain c1 s1 where "fullLoop (diagnostics2\<lparr>goldPerAttempt := g\<rparr>) rnd
                \<lparr>attempts = a, gold = c, starAttempts = [x, y]\<rparr> [0, 0] f s
     = fullLoop (diagnostics2\<lparr>goldPerAttempt := g\<rparr>) rnd
                \<lparr>attempts = a + 13, gold = c1, starAttempts = [x + 9, y + 3]\<rparr> [0, 0]
                (f + 1) s1"
    using diagnostics2_fullLoop_next [OF nonneg low] by blast
  moreover have d: "2 - (f + 1) = d" and le: "f + 1 \<le> 2"
    using Suc.prems low by simp_all
  moreover obtain r s' where "fullLoop (diagnostics2\<lparr>goldPerAttempt := g\<rparr>) rnd
                \<lparr>attempts = a + 13, gold = c1, starAttempts = [x + 9, y + 3]\<rparr> [0, 0]
                (f + 1) s1
     = Some (r, 2, s')" and "attempts r = a + 13 + 13 * (3 - (f + 1))"
    using Suc.IH [OF d le, where a = "a + 13" and c = c1 and x = "x + 9"
        and y = "y + 3" and s = s1]
    by blast
  moreover have "a + 13 + 13 * (3 - (f + 1)) = a + 13 * (3 - f)"
    using low by simp
  ultimately have "fullLoop (diagnostics2\<lparr>goldPerAttempt := g\<rparr>) rnd
                \<lparr>attempts = a, gold = c, starAttempts = [x, y]\<rparr> [0, 0] f s
                = Some (r, 2, s') \<and> attempts r = a + 13 * (3 - f)"
    by presburger
  then show ?case by blast
qed

lemma diagnostics2_worstCaseFull:
  "worstCaseFull (diagnostics2\<lparr>goldPerAttempt := g\<rparr>)
     = Some \<lparr>wcAttempts = Fin 39, wcGold = Fin (jsMul 39 g)\<rparr>"
  using worstCaseFull_finite [of "diagnostics2\<lparr>goldPerAttempt := g\<rparr>"]
  by (simp add: diagnostics2_def numeral_2_eq_2)

text \<open>
  C1. On the configuration of test 2 (2 stars, every probability 0, both pity thresholds
  2, no reset), at any gold per attempt, with a generator whose draws are never negative,
  \<open>simulateFullRun\<close> returns, and its attempts are those of \<open>worstCaseFull\<close>.
\<close>

theorem fullRun_equals_worstCase:
  assumes "\<forall>s. 0 \<le> fst (rnd s)"
  shows "\<exists>r s' w. simulateFullRun (diagnostics2\<lparr>goldPerAttempt := g\<rparr>) rnd s = Some (r, s') \<and>
           worstCaseFull (diagnostics2\<lparr>goldPerAttempt := g\<rparr>) = Some w \<and>
           wcAttempts w = Fin (attempts r)"
proof -
  have nonneg: "\<forall>s. \<not> fst (rnd s) < 0" using assms by (simp add: not_less)
  have two: "replicate (numStars diagnostics2) (0::nat) = [0, 0]"
    by (simp add: diagnostics2_def numeral_2_eq_2)
  obtain r s' where "fullLoop (diagnostics2\<lparr>goldPerAttempt := g\<rparr>) rnd
                \<lparr>attempts = 0, gold = 0, starAttempts = [0, 0]\<rparr> [0, 0] 0 s
     = Some (r, 2, s') \<and> attempts r = 39"
    using diagnostics2_fullLoop [OF nonneg, where f = 0 and d = 2 and g = g and a = 0
        and c = 0 and x = 0 and y = 0 and s = s]
    by auto
  then have "simulateFullRun (diagnostics2\<lparr>goldPerAttempt := g\<rparr>) rnd s = Some (r, s') \<and>
             attempts r = 39"
    by (simp add: simulateFullRun_def two)
  then show ?thesis by (simp add: diagnostics2_worstCaseFull)
qed

theorem fullRun_equals_worstCase_witness:
  "(\<forall>s. 0 \<le> fst (rand s)) \<and>
   (\<exists>r s' w. simulateFullRun (diagnostics2\<lparr>goldPerAttempt := 100\<rparr>) rand (createLCG 42)
                = Some (r, s') \<and>
              worstCaseFull (diagnostics2\<lparr>goldPerAttempt := 100\<rparr>) = Some w \<and>
              wcAttempts w = Fin (attempts r))"
proof -
  have nonneg: "\<forall>s. 0 \<le> fst (rand s)" by (simp add: rand_nonneg)
  show ?thesis
    using nonneg fullRun_equals_worstCase [OF nonneg, of 100 "createLCG 42"] by blast
qed

subsection \<open>Reset on any failure with probability 0\<close>

lemma attemptStar_stuck:
  assumes "starPityResetsOnAnyFail p" and "0 < starPityThreshold p" and "0 < numStars p"
    and "\<forall>x \<in> set (starProbs p). x \<le> 0" and "\<forall>s. 0 \<le> fst (rnd s)"
  shows "snd (attemptStar p rnd r (replicate (numStars p) 0) 0 s)
           = (replicate (numStars p) 0, 0, snd (rnd s))"
proof -
  have "\<not> (0 < length (starProbs p) \<and> fst (rnd s) < starProbs p ! 0)"
  proof
    assume a: "0 < length (starProbs p) \<and> fst (rnd s) < starProbs p ! 0"
    then have "starProbs p ! 0 \<in> set (starProbs p)" by simp
    with assms(4) have "starProbs p ! 0 \<le> 0" by blast
    with a assms(5) [rule_format, of s] show False by linarith
  qed
  then show ?thesis
    using assms(1,2,3)
    by (simp add: attemptStar_def starSuccess_def handleFailReset_def Let_def split_beta)
qed

lemma starLoop_stuck_aux:
  assumes "starLoop p rnd r pf i s = Some res"
    and "starPityResetsOnAnyFail p" and "0 < starPityThreshold p" and "0 < numStars p"
    and "\<forall>x \<in> set (starProbs p). x \<le> 0" and "\<forall>s. 0 \<le> fst (rnd s)"
  shows "\<not> (pf = replicate (numStars p) 0 \<and> i = 0)"
  using assms
proof (induction p rnd r pf i s res rule: starLoop.raw_induct [rotated 1, consumes 1])
  case (1 loop p rnd r pf i s res)
  show ?case
  proof
    assume st: "pf = replicate (numStars p) 0 \<and> i = 0"
    obtain r1 where step: "attemptStar p rnd r (replicate (numStars p) 0) 0 s
                             = (r1, replicate (numStars p) 0, 0, snd (rnd s))"
      using attemptStar_stuck [OF "1.prems", of r s]
      by (metis prod.collapse)
    from "1.hyps" st "1.prems"(3)
    have "loop p rnd r1 (replicate (numStars p) 0) 0 (snd (rnd s)) = Some res"
      by (simp add: step split: if_splits)
    from "1.IH" [OF this "1.prems"] show False by simp
  qed
qed

lemma simulateStarsOnly_stuck:
  assumes "starPityResetsOnAnyFail p" and "0 < starPityThreshold p" and "0 < numStars p"
    and "\<forall>x \<in> set (starProbs p). x \<le> 0" and "\<forall>s. 0 \<le> fst (rnd s)"
  shows "simulateStarsOnly p rnd s = None"
proof -
  have "starLoop p rnd \<lparr>attempts = 0, gold = 0, starAttempts = replicate (numStars p) 0\<rparr>
          (replicate (numStars p) 0) 0 s = None"
    using starLoop_stuck_aux [OF _ assms] by (metis option.exhaust)
  then show ?thesis by (simp add: simulateStarsOnly_def)
qed

lemma runSimulation_stuck:
  assumes "starPityResetsOnAnyFail p" and "0 < starPityThreshold p" and "0 < numStars p"
    and "\<forall>x \<in> set (starProbs p). x \<le> 0" and "0 < trials"
  shows "runSimulation p trials seed = None"
proof -
  obtain k where k: "trials = Suc k" using assms(5) by (cases trials) auto
  have "\<forall>s. 0 \<le> fst (rand s)" by (simp add: rand_nonneg)
  from simulateStarsOnly_stuck [OF assms(1-4) this]
  show ?thesis by (simp add: runSimulation_def k)
qed

text \<open>
  C3. The specification asks the engine to detect the reset rule with all probabilities
  0 and to fail fast. \<open>runSimulation\<close> makes no such check: on one star with
  probability 0, pity threshold 1 and the reset rule, one trial from the default seed
  12345 never returns.
\<close>

theorem runSimulation_no_guard:
  "runSimulation
     \<lparr>goldPerAttempt = 170000, starProbs = [0], finalProb = 0,
      starPityThreshold = 1, finalPityThreshold = 1,
      starPityResetsOnAnyFail = True, numStars = 1\<rparr> 1 12345 = None"
  by (rule runSimulation_stuck) simp_all

text \<open>
  C3, as the code has it. With the reset rule, at least one star, a star pity threshold
  of at least 1 and every star probability 0, \<open>simulateStarsOnly\<close> never returns on any
  seed, and \<open>runSimulation\<close> with at least one trial, which starts the trials without any
  check, never returns either: no error and no result.
\<close>

theorem runSimulation_never_returns:
  assumes "starPityResetsOnAnyFail p" and "0 < starPityThreshold p" and "0 < numStars p"
    and "\<forall>x \<in> set (starProbs p). x = 0" and "0 < trials"
  shows "simulateStarsOnly p rand (createLCG seed) = None \<and>
         runSimulation p trials seed = None"
proof -
  have probs: "\<forall>x \<in> set (starProbs p). x \<le> 0" using assms(4) by auto
  have "\<forall>s. 0 \<le> fst (rand s)" by (simp add: rand_nonneg)
  from simulateStarsOnly_stuck [OF assms(1-3) probs this]
    runSimulation_stuck [OF assms(1-3) probs assms(5)]
  show ?thesis by simp
qed

theorem runSimulation_never_returns_witness:
  "starPityResetsOnAnyFail (diagnostics2\<lparr>starPityResetsOnAnyFail := True\<rparr>) \<and>
   0 < starPityThreshold (diagnostics2\<lparr>starPityResetsOnAnyFail := True\<rparr>) \<and>
   0 < numStars (diagnostics2\<lparr>starPityResetsOnAnyFail := True\<rparr>) \<and>
   starProbs (diagnostics2\<lparr>starPityResetsOnAnyFail := True\<rparr>) = [0, 0] \<and>
   (0::nat) < 20000 \<and>
   simulateStarsOnly (diagnostics2\<lparr>starPityResetsOnAnyFail := True\<rparr>) rand (createLCG 42)
     = None \<and>
   runSimulation (diagnostics2\<lparr>starPityResetsOnAnyFail := True\<rparr>) 20000 42 = None"
proof -
  let ?p = "diagnostics2\<lparr>starPityResetsOnAnyFail := True\<rparr>"
  have probs: "starProbs ?p = [0, 0]" by (simp add: diagnostics2_def)
  have h: "starPityResetsOnAnyFail ?p" "0 < starPityThreshold ?p" "0 < numStars ?p"
    "\<forall>x \<in> set (starProbs ?p). x = 0" "(0::nat) < 20000"
    by (simp_all add: diagnostics2_def)
  from h(1,2,3,5) probs runSimulation_never_returns [OF h, of 42] show ?thesis by blast
qed

subsection \<open>Percentile\<close>

text \<open>The value \<open>percentile\<close> interpolates at position \<open>t\<close> of a non-empty array.\<close>

lemma percentile_in_range:
  assumes "xs \<noteq> []" and "0 \<le> p" and "p \<le> 1"
  shows "percentile xs p =
           Some (let t = (real (length xs) - 1) * p; i = nat \<lfloor>t\<rfloor>
                 in if i + 1 < length xs
                    then xs ! i + (t - real i) * (xs ! (i + 1) - xs ! i)
                    else xs ! i)"
proof -
  define t where "t = (real (length xs) - 1) * p"
  define b where "b = \<lfloor>t\<rfloor>"
  have len: "1 \<le> real (length xs)" using assms(1) by (cases xs) auto
  have t0: "0 \<le> t" unfolding t_def using len assms(2) by simp
  have "t \<le> (real (length xs) - 1) * 1"
    unfolding t_def using len assms(3) by (intro mult_left_mono) simp_all
  then have t1: "t \<le> real (length xs) - 1" by simp
  have b0: "0 \<le> b" unfolding b_def using t0 by simp
  have "b \<le> \<lfloor>real (length xs) - 1\<rfloor>" unfolding b_def using t1 by (rule floor_mono)
  also have "\<dots> = int (length xs) - 1" by linarith
  finally have b1: "b < int (length xs)" by simp
  have idx: "nat (b + 1) = nat b + 1" using b0 by arith
  have cond: "b + 1 < int (length xs) \<longleftrightarrow> nat b + 1 < length xs"
    using b0 by linarith
  have re: "real_of_int b = real (nat b)" using b0 by simp
  have "percentile xs p =
          (if 0 \<le> b + 1 \<and> b + 1 < int (length xs) then
              (if 0 \<le> b then
                 Some (xs ! nat b + (t - of_int b) * (xs ! nat (b + 1) - xs ! nat b))
               else None)
            else if 0 \<le> b \<and> b < int (length xs) then Some (xs ! nat b)
            else None)"
    using assms(1) unfolding percentile_def Let_def t_def b_def by simp
  also have "\<dots> = Some (if nat b + 1 < length xs
                then xs ! nat b + (t - real (nat b)) * (xs ! (nat b + 1) - xs ! nat b)
                else xs ! nat b)"
    using b0 b1 cond by (simp only: idx re if_True if_False simp_thms split: if_split) auto
  finally show ?thesis unfolding Let_def t_def b_def .
qed

lemma segment_bounds:
  fixes xs :: "real list"
  assumes "sorted xs" and "0 \<le> t" and "i = nat \<lfloor>t\<rfloor>" and "i + 1 < length xs"
  shows "xs ! i \<le> xs ! i + (t - real i) * (xs ! (i + 1) - xs ! i)"
    and "xs ! i + (t - real i) * (xs ! (i + 1) - xs ! i) \<le> xs ! (i + 1)"
proof -
  have d: "0 \<le> xs ! (i + 1) - xs ! i"
    using assms(1,4) sorted_nth_mono [of xs i "i + 1"] by simp
  have r0: "0 \<le> t - real i" using assms(2,3) by linarith
  have r1: "t - real i \<le> 1" using assms(2,3) by linarith
  show "xs ! i \<le> xs ! i + (t - real i) * (xs ! (i + 1) - xs ! i)"
    using d r0 by simp
  have "(t - real i) * (xs ! (i + 1) - xs ! i) \<le> 1 * (xs ! (i + 1) - xs ! i)"
    using d r1 by (intro mult_right_mono) simp_all
  then show "xs ! i + (t - real i) * (xs ! (i + 1) - xs ! i) \<le> xs ! (i + 1)"
    by simp
qed

lemma interpolation_mono:
  fixes xs :: "real list"
  assumes "sorted xs" and "0 \<le> t" and "t \<le> u" and "u \<le> real (length xs) - 1"
  shows "(let i = nat \<lfloor>t\<rfloor>
          in if i + 1 < length xs then xs ! i + (t - real i) * (xs ! (i + 1) - xs ! i)
             else xs ! i)
       \<le> (let j = nat \<lfloor>u\<rfloor>
          in if j + 1 < length xs then xs ! j + (u - real j) * (xs ! (j + 1) - xs ! j)
             else xs ! j)"
proof -
  define i where "i = nat \<lfloor>t\<rfloor>"
  define j where "j = nat \<lfloor>u\<rfloor>"
  have u0: "0 \<le> u" using assms(2,3) by simp
  have ij: "i \<le> j" unfolding i_def j_def using assms(3) by (simp add: floor_mono nat_mono)
  have "real j \<le> u" unfolding j_def using u0 by simp
  then have jlen: "j < length xs" using assms(4) by linarith
  show ?thesis
  proof (cases "i = j")
    case True
    show ?thesis
    proof (cases "j + 1 < length xs")
      case inr: True
      have "0 \<le> xs ! (j + 1) - xs ! j"
        using assms(1) inr sorted_nth_mono [of xs j "j + 1"] by simp
      then have "(t - real j) * (xs ! (j + 1) - xs ! j) \<le> (u - real j) * (xs ! (j + 1) - xs ! j)"
        using assms(3) by (intro mult_right_mono) simp_all
      then show ?thesis using True inr by (simp add: i_def [symmetric] j_def [symmetric])
    next
      case False
      then show ?thesis using True by (simp add: i_def [symmetric] j_def [symmetric])
    qed
  next
    case False
    with ij have lt: "i + 1 \<le> j" by simp
    with jlen have inr: "i + 1 < length xs" by simp
    have "xs ! i + (t - real i) * (xs ! (i + 1) - xs ! i) \<le> xs ! (i + 1)"
      using segment_bounds(2) [OF assms(1,2) i_def inr] .
    also have "\<dots> \<le> xs ! j"
      using assms(1) lt jlen by (simp add: sorted_nth_mono)
    also have "\<dots> \<le> (if j + 1 < length xs then xs ! j + (u - real j) * (xs ! (j + 1) - xs ! j)
                       else xs ! j)"
      using segment_bounds(1) [OF assms(1) u0 j_def] by simp
    finally show ?thesis using inr by (simp add: i_def [symmetric] j_def [symmetric])
  qed
qed

lemma percentile_monotone:
  assumes "sorted xs" and "0 \<le> p" and "p \<le> q" and "q \<le> 1"
  shows "\<exists>a b. percentile xs p = Some a \<and> percentile xs q = Some b \<and> a \<le> b"
proof (cases "xs = []")
  case True
  then show ?thesis by (simp add: percentile_def)
next
  case False
  let ?n = "real (length xs) - 1"
  have len: "0 \<le> ?n" using False by (cases xs) auto
  have t0: "0 \<le> ?n * p" using len assms(2) by simp
  have tu: "?n * p \<le> ?n * q" using len assms(3) by (rule mult_left_mono [rotated])
  have "?n * q \<le> ?n * 1" using len assms(4) by (rule mult_left_mono [rotated])
  then have u1: "?n * q \<le> ?n" by simp
  have p1: "p \<le> 1" and q0: "0 \<le> q" using assms by simp_all
  show ?thesis
    using interpolation_mono [OF assms(1) t0 tu u1]
    by (simp add: percentile_in_range [OF False assms(2) p1]
          percentile_in_range [OF False q0 assms(4)] Let_def)
qed

text \<open>
  C8. On a sorted array \<open>percentile\<close> is monotonic in \<open>p\<close> over \<open>[0, 1]\<close>, and the
  median, the 90th and the 99th percentile of every summary are in this order, for
  attempts and for gold.
\<close>

theorem percentile_mono:
  "(sorted xs \<and> xs \<noteq> [] \<and> 0 \<le> p \<and> p \<le> q \<and> q \<le> 1 \<longrightarrow>
      (\<exists>a b. percentile xs p = Some a \<and> percentile xs q = Some b \<and> a \<le> b)) \<and>
   (\<exists>a b c. medianAttempts (summarize attemptsArr goldsArr) = Some a \<and>
            p90Attempts (summarize attemptsArr goldsArr) = Some b \<and>
            p99Attempts (summarize attemptsArr goldsArr) = Some c \<and> a \<le> b \<and> b \<le> c) \<and>
   (\<exists>a b c. medianGold (summarize attemptsArr goldsArr) = Some a \<and>
            p90Gold (summarize attemptsArr goldsArr) = Some b \<and>
            p99Gold (summarize attemptsArr goldsArr) = Some c \<and> a \<le> b \<and> b \<le> c)"
proof (intro conjI impI)
  assume "sorted xs \<and> xs \<noteq> [] \<and> 0 \<le> p \<and> p \<le> q \<and> q \<le> 1"
  then show "\<exists>a b. percentile xs p = Some a \<and> percentile xs q = Some b \<and> a \<le> b"
    using percentile_monotone [of xs p q] by simp
next
  let ?sA = "map real (sort attemptsArr)"
  have s: "sorted ?sA"
    by (simp add: sorted_map sorted_wrt_mono_rel [of _ "(\<le>)"])
  from percentile_monotone [OF s, of "0.5" "0.9"] percentile_monotone [OF s, of "0.9" "0.99"]
  show "\<exists>a b c. medianAttempts (summarize attemptsArr goldsArr) = Some a \<and>
            p90Attempts (summarize attemptsArr goldsArr) = Some b \<and>
            p99Attempts (summarize attemptsArr goldsArr) = Some c \<and> a \<le> b \<and> b \<le> c"
    by (auto simp: summarize_def Let_def)
next
  have s: "sorted (sort goldsArr)" by simp
  from percentile_monotone [OF s, of "0.5" "0.9"] percentile_monotone [OF s, of "0.9" "0.99"]
  show "\<exists>a b c. medianGold (summarize attemptsArr goldsArr) = Some a \<and>
            p90Gold (summarize attemptsArr goldsArr) = Some b \<and>
            p99Gold (summarize attemptsArr goldsArr) = Some c \<and> a \<le> b \<and> b \<le> c"
    by (auto simp: summarize_def Let_def)
qed

theorem percentile_mono_witness:
  "sorted [3, 3, 7, 12 :: real] \<and> [3, 3, 7, 12 :: real] \<noteq> [] \<and> (0::real) \<le> 0.5 \<and>
   (0.5::real) \<le> 0.9 \<and> (0.9::real) \<le> 1 \<and>
   (\<exists>a b. percentile [3, 3, 7, 12] 0.5 = Some a \<and> percentile [3, 3, 7, 12] 0.9 = Some b \<and>
          a \<le> b)"
proof -
  have h: "sorted [3, 3, 7, 12 :: real] \<and> [3, 3, 7, 12 :: real] \<noteq> [] \<and> (0::real) \<le> 0.5 \<and>
           (0.5::real) \<le> 0.9 \<and> (0.9::real) \<le> 1"
    by simp
  from percentile_mono [of "[3, 3, 7, 12]" "0.5" "0.9", THEN conjunct1] h
  show ?thesis by blast
qed

lemma percentile_example:
  "percentile [3, 3, 7, 12] 0.5 = Some 5" "percentile [3, 3, 7, 12] 0.9 = Some 10.5"
  by (simp_all add: percentile_def Let_def)

subsection \<open>Histogram\<close>

lemma binOf_bounds:
  assumes "0 < w"
  shows "binOf w v \<le> v" and "v < binOf w v + w"
proof -
  have "of_int \<lfloor>v / w\<rfloor> \<le> v / w" by simp
  then have "of_int \<lfloor>v / w\<rfloor> * w \<le> v / w * w"
    using assms by (intro mult_right_mono) simp_all
  then show "binOf w v \<le> v" using assms by (simp add: binOf_def)
  have "v / w < of_int \<lfloor>v / w\<rfloor> + 1" by linarith
  then have "v / w * w < (of_int \<lfloor>v / w\<rfloor> + 1) * w"
    using assms by (intro mult_strict_right_mono) simp_all
  then show "v < binOf w v + w" using assms by (simp add: binOf_def algebra_simps)
qed

lemma sum_snd_update:
  "sum_list (map snd (AList.update k (Suc (case map_of m k of None \<Rightarrow> 0 | Some c \<Rightarrow> c)) m))
     = Suc (sum_list (map snd m))"
  by (induction m) auto

lemma sum_snd_insort:
  fixes x :: "'a::linorder \<times> nat"
  shows "sum_list (map snd (insort_key fst x xs)) = snd x + sum_list (map snd xs)"
  by (induction xs) (auto simp: ac_simps)

lemma sum_snd_sort:
  fixes xs :: "('a::linorder \<times> nat) list"
  shows "sum_list (map snd (sort_key fst xs)) = sum_list (map snd xs)"
  by (induction xs) (auto simp: sum_snd_insort)

lemma counts_sum:
  "sum_list (map snd (foldl (countInto w) [] arr)) = length arr"
  by (induction arr rule: rev_induct) (auto simp: countInto_def Let_def sum_snd_update)

lemma counts_keys:
  "distinct (map fst (foldl (countInto w) [] arr))"
  by (induction arr rule: rev_induct) (auto simp: countInto_def Let_def distinct_update)

lemma counts_lookup:
  "map_of (foldl (countInto w) [] arr) k =
     (if length (filter (\<lambda>u. binOf w u = k) arr) = 0 then None
      else Some (length (filter (\<lambda>u. binOf w u = k) arr)))"
proof (induction arr rule: rev_induct)
  case Nil
  then show ?case by simp
next
  case (snoc v arr)
  then show ?case
    by (auto simp: countInto_def Let_def update_conv')
qed

lemma counts_entries:
  "(k, c) \<in> set (foldl (countInto w) [] arr) \<longleftrightarrow>
     0 < c \<and> c = length (filter (\<lambda>u. binOf w u = k) arr)"
proof
  assume "(k, c) \<in> set (foldl (countInto w) [] arr)"
  then have "map_of (foldl (countInto w) [] arr) k = Some c"
    using counts_keys [of w arr] by simp
  then show "0 < c \<and> c = length (filter (\<lambda>u. binOf w u = k) arr)"
    by (auto simp: counts_lookup split: if_splits)
next
  assume "0 < c \<and> c = length (filter (\<lambda>u. binOf w u = k) arr)"
  then have "map_of (foldl (countInto w) [] arr) k = Some c"
    by (auto simp: counts_lookup)
  then show "(k, c) \<in> set (foldl (countInto w) [] arr)"
    by (rule map_of_SomeD)
qed

lemma makeHistogram_entries:
  "(k, c) \<in> set (makeHistogram arr w) \<longleftrightarrow>
     0 < c \<and> c = length (filter (\<lambda>u. binOf w u = k) arr)"
  by (simp add: makeHistogram_def counts_entries)

lemma makeHistogram_ascending:
  "sorted_wrt (<) (map fst (makeHistogram arr w))"
proof -
  let ?m = "foldl (countInto w) [] arr"
  have "distinct ?m \<and> inj_on fst (set ?m)"
    using counts_keys [of w arr] by (simp add: distinct_map)
  then have "distinct (map fst (sort_key fst ?m))"
    by (simp add: distinct_map)
  moreover have "sorted (map fst (sort_key fst ?m))" by simp
  ultimately show ?thesis
    by (simp add: makeHistogram_def strict_sorted_iff)
qed

text \<open>
  C9. For a positive bin size every sample \<open>v\<close> is counted in the bin
  \<open>floor(v / binSize) * binSize\<close>, which is the multiple of the bin size at or just below
  \<open>v\<close>; the bins come in strictly ascending order, each holds the number of samples
  that fall into it, which is not zero, and the counts add up to the number of samples.
  With bin size 5 the samples \<open>[3, 3, 7, 12]\<close> give the bins \<open>(0, 2), (5, 1), (10, 1)\<close>.
\<close>

theorem makeHistogram_bins:
  "(0 < binSize \<longrightarrow>
      (\<forall>v \<in> set arr.
         binOf binSize v = of_int \<lfloor>v / binSize\<rfloor> * binSize \<and>
         binOf binSize v \<le> v \<and> v < binOf binSize v + binSize \<and>
         (binOf binSize v, length (filter (\<lambda>u. binOf binSize u = binOf binSize v) arr))
           \<in> set (makeHistogram arr binSize)) \<and>
      sorted_wrt (<) (map fst (makeHistogram arr binSize)) \<and>
      (\<forall>(k, c) \<in> set (makeHistogram arr binSize).
         0 < c \<and> c = length (filter (\<lambda>u. binOf binSize u = k) arr)) \<and>
      sum_list (map snd (makeHistogram arr binSize)) = length arr) \<and>
   makeHistogram [3, 3, 7, 12] 5 = [(0, 2), (5, 1), (10, 1)]"
proof (intro conjI impI ballI)
  fix v assume w: "0 < binSize" and v: "v \<in> set arr"
  show "binOf binSize v = of_int \<lfloor>v / binSize\<rfloor> * binSize" by (simp add: binOf_def)
  show "binOf binSize v \<le> v" using binOf_bounds(1) [OF w] .
  show "v < binOf binSize v + binSize" using binOf_bounds(2) [OF w] .
  have "v \<in> set (filter (\<lambda>u. binOf binSize u = binOf binSize v) arr)" using v by simp
  then have "0 < length (filter (\<lambda>u. binOf binSize u = binOf binSize v) arr)"
    by (metis length_pos_if_in_set)
  then show "(binOf binSize v, length (filter (\<lambda>u. binOf binSize u = binOf binSize v) arr))
           \<in> set (makeHistogram arr binSize)"
    by (simp add: makeHistogram_entries)
next
  show "sorted_wrt (<) (map fst (makeHistogram arr binSize))"
    by (rule makeHistogram_ascending)
next
  fix e assume "e \<in> set (makeHistogram arr binSize)"
  then show "case e of (k, c) \<Rightarrow> 0 < c \<and> c = length (filter (\<lambda>u. binOf binSize u = k) arr)"
    using makeHistogram_entries [of "fst e" "snd e" arr binSize] by (auto simp: split_beta)
next
  show "sum_list (map snd (makeHistogram arr binSize)) = length arr"
    by (simp add: makeHistogram_def sum_snd_sort counts_sum)
next
  show "makeHistogram [3, 3, 7, 12] 5 = [(0, 2), (5, 1), (10, 1)]"
    by (simp add: makeHistogram_def countInto_def binOf_def Let_def)
qed

theorem makeHistogram_bins_witness:
  "(0::real) < 5 \<and> (7::real) \<in> set [3, 3, 7, 12] \<and>
   binOf 5 7 = of_int \<lfloor>(7::real) / 5\<rfloor> * 5 \<and> binOf 5 7 \<le> 7 \<and> 7 < binOf 5 7 + 5 \<and>
   (binOf 5 7, length (filter (\<lambda>u. binOf 5 u = binOf 5 7) [3, 3, 7, 12]))
     \<in> set (makeHistogram [3, 3, 7, 12] 5) \<and>
   sorted_wrt (<) (map fst (makeHistogram [3, 3, 7, 12] 5)) \<and>
   (0, 2) \<in> set (makeHistogram [3, 3, 7, 12] 5) \<and>
   (0::nat) < 2 \<and> 2 = length (filter (\<lambda>u. binOf 5 u = 0) [3, 3, 7, 12]) \<and>
   sum_list (map snd (makeHistogram [3, 3, 7, 12] 5)) = length [3, 3, 7, 12 :: real] \<and>
   makeHistogram [3, 3, 7, 12] 5 = [(0, 2), (5, 1), (10, 1)]"
proof -
  have h: "(0::real) < 5" by simp
  have v: "(7::real) \<in> set [3, 3, 7, 12]" by simp
  note bins = makeHistogram_bins [of 5 "[3, 3, 7, 12]"]
  note all = bins [THEN conjunct1, THEN mp, OF h]
  note ex = bins [THEN conjunct2]
  have e: "((0::real), 2::nat) \<in> set (makeHistogram [3, 3, 7, 12] 5)"
    by (simp add: ex)
  note sample = all [THEN conjunct1, THEN bspec, OF v]
  note order = all [THEN conjunct2, THEN conjunct1]
  note entry = all [THEN conjunct2, THEN conjunct2, THEN conjunct1, THEN bspec, OF e]
  note total = all [THEN conjunct2, THEN conjunct2, THEN conjunct2]
  have entry': "(0::nat) < 2 \<and> 2 = length (filter (\<lambda>u. binOf 5 u = 0) [3, 3, 7, 12])"
    using entry unfolding prod.case .
  show ?thesis
    using h v sample order e entry' total ex by blast
qed

end
